theory Spec2Isabelle
  imports Complex_Main
begin

text \<open>
  The client of the tutorial platform's code runner: the code editor and the exercise page
  with their handlers, the progressive hints, and the API client with its token refresh;
  then the execution service these call, from its specification; then what holds of them.
\<close>

section \<open>Result types of the code editor (types/codeEditor)\<close>

text \<open>
  \<^verbatim>\<open>execution_time\<close> is a JavaScript number holding seconds; it is a rational here.
  An optional field (\<^verbatim>\<open>error?: string\<close>) is an \<open>option\<close>: \<open>None\<close> is the absent field.
  The fields \<^verbatim>\<open>expected\<close> and \<^verbatim>\<open>actual\<close> have the type \<^verbatim>\<open>any\<close>: the type parameter \<open>'v\<close>.
  Two interfaces may share a field name in TypeScript; here the later ones carry a short
  suffix (\<open>success_v\<close>, \<open>error_t\<close>), and \<^verbatim>\<open>output\<close>, a keyword of the prover, is \<open>output_text\<close>.
\<close>

record CodeExecutionResult =
  success :: bool
  output_text :: string
  error :: "string option"
  execution_time :: rat
  memory_usage :: "nat option"

record 'v TestResult =
  name :: string
  passed :: bool
  expected :: 'v
  actual :: "'v option"
  error_t :: "string option"

record 'v ExerciseValidationResult =
  success_v :: bool
  passed_tests :: nat
  total_tests :: nat
  test_results :: "'v TestResult list"
  score :: int
  feedback :: string

text \<open>
  What a \<^verbatim>\<open>catch (error)\<close> clause can receive: an \<^verbatim>\<open>Error\<close> object with its message, or any
  other thrown value. \<open>error_text d e\<close> is
  \<^verbatim>\<open>error instanceof Error ? error.message : d\<close>.
\<close>

datatype thrown = ErrorObj string | OtherThrown

fun error_text :: "string \<Rightarrow> thrown \<Rightarrow> string" where
  "error_text d (ErrorObj m) = m"
| "error_text d OtherThrown = d"

text \<open>
  An optional callback prop (\<^verbatim>\<open>onExecute?.(result)\<close>): absent, or a function that returns
  normally (\<open>None\<close>) or throws (\<open>Some e\<close>). \<open>call_opt\<close> is the optional call.
\<close>

type_synonym 'a callback = "('a \<Rightarrow> thrown option) option"

definition call_opt :: "'a callback \<Rightarrow> 'a \<Rightarrow> thrown option" where
  "call_opt cb x = (case cb of None \<Rightarrow> None | Some f \<Rightarrow> f x)"

text \<open>
  How an async handler ends: its promise resolves, or rejects with a thrown value, or stays
  pending because a promise it awaits never settles. Accordingly an awaited API call is an
  optional outcome: \<open>Some (Inr r)\<close> when it resolves with \<open>r\<close>, \<open>Some (Inl e)\<close> when it rejects
  with \<open>e\<close>, \<open>None\<close> when it never settles.
\<close>

datatype completion = Returned | Threw thrown | Pending

text \<open>The requests a component hands to \<^verbatim>\<open>apiClient\<close>, in the order issued.\<close>

datatype api_call =
    ExecuteCall string string
  | ValidateCall string string
  | SubmitCall string string

section \<open>The code editor component (CodeEditor)\<close>

record 'v CodeEditorState =
  code :: string
  isExecuting :: bool
  isValidating :: bool
  executionResult :: "CodeExecutionResult option"
  validationResult :: "'v ExerciseValidationResult option"
  showHints :: bool
  hints :: "string list"

text \<open>What a handler leaves behind: the state (the last one it reaches, if it stays
  pending), the API calls it issued, the results it handed to its callback, and how it
  ended.\<close>

record ('s, 'r) handled =
  final :: 's
  calls :: "api_call list"
  notified :: "'r list"
  ended :: completion

definition initial_state :: "string \<Rightarrow> 'v CodeEditorState" where
  "initial_state initialCode =
     \<lparr>code = initialCode, isExecuting = False, isValidating = False,
      executionResult = None, validationResult = None, showHints = False, hints = []\<rparr>"

text \<open>
  \<^verbatim>\<open>executeCode\<close>. \<open>api\<close> is \<^verbatim>\<open>apiClient.executeCode\<close>: it resolves with a result, rejects,
  or never settles; in the last case the handler stays at its \<^verbatim>\<open>await\<close>, after the two state
  updates that precede the \<^verbatim>\<open>try\<close>. The callback runs inside the \<^verbatim>\<open>try\<close>, so a throw of the
  callback lands in the \<^verbatim>\<open>catch\<close> as well; a throw inside the \<^verbatim>\<open>catch\<close> leaves the handler
  after the \<^verbatim>\<open>finally\<close>.
\<close>

definition execute_fallback :: "thrown \<Rightarrow> CodeExecutionResult" where
  "execute_fallback e =
     \<lparr>success = False, output_text = [], error = Some (error_text ''Unknown error occurred'' e),
      execution_time = 0, memory_usage = None\<rparr>"

definition executeCode ::
  "(string \<Rightarrow> string \<Rightarrow> (thrown + CodeExecutionResult) option) \<Rightarrow>
   CodeExecutionResult callback \<Rightarrow>
   string \<Rightarrow> 'v CodeEditorState \<Rightarrow> ('v CodeEditorState, CodeExecutionResult) handled" where
  "executeCode api onExecute language st =
     (let st1 = st\<lparr>isExecuting := True, executionResult := None\<rparr>;
          issued = [ExecuteCall (code st) language];
          catch = (\<lambda>s seen e.
            let errorResult = execute_fallback e;
                s' = s\<lparr>executionResult := Some errorResult\<rparr>
            in \<lparr>final = s'\<lparr>isExecuting := False\<rparr>, calls = issued,
                notified = (case onExecute of None \<Rightarrow> seen | Some _ \<Rightarrow> seen @ [errorResult]),
                ended = (case call_opt onExecute errorResult of
                           None \<Rightarrow> Returned | Some e' \<Rightarrow> Threw e')\<rparr>)
      in case api (code st) language of
           None \<Rightarrow> \<lparr>final = st1, calls = issued, notified = [], ended = Pending\<rparr>
         | Some (Inl e) \<Rightarrow> catch st1 [] e
         | Some (Inr result) \<Rightarrow>
             (let st2 = st1\<lparr>executionResult := Some result\<rparr>;
                  seen = (case onExecute of None \<Rightarrow> [] | Some _ \<Rightarrow> [result])
              in case call_opt onExecute result of
                   None \<Rightarrow> \<lparr>final = st2\<lparr>isExecuting := False\<rparr>, calls = issued,
                            notified = seen, ended = Returned\<rparr>
                 | Some e \<Rightarrow> catch st2 seen e))"

definition validate_fallback :: "thrown \<Rightarrow> 'v ExerciseValidationResult" where
  "validate_fallback e =
     \<lparr>success_v = False, passed_tests = 0, total_tests = 0, test_results = [], score = 0,
      feedback = error_text ''Validation failed'' e\<rparr>"

text \<open>
  \<^verbatim>\<open>validateExercise\<close>: without an \<^verbatim>\<open>exerciseId\<close> (absent, or the empty string, which
  \<^verbatim>\<open>!exerciseId\<close> also rejects) it returns at once.
\<close>

definition validateExercise ::
  "(string \<Rightarrow> string \<Rightarrow> (thrown + 'v ExerciseValidationResult) option) \<Rightarrow>
   'v ExerciseValidationResult callback \<Rightarrow> string option \<Rightarrow> 'v CodeEditorState \<Rightarrow>
   ('v CodeEditorState, 'v ExerciseValidationResult) handled" where
  "validateExercise api onValidate exerciseId st =
     (case exerciseId of
        None \<Rightarrow> \<lparr>final = st, calls = [], notified = [], ended = Returned\<rparr>
      | Some eid \<Rightarrow>
          if eid = [] then \<lparr>final = st, calls = [], notified = [], ended = Returned\<rparr>
          else
            (let st1 = st\<lparr>isValidating := True, validationResult := None\<rparr>;
                 issued = [ValidateCall eid (code st)];
                 catch = (\<lambda>s seen e.
                   let errorResult = validate_fallback e;
                       s' = s\<lparr>validationResult := Some errorResult\<rparr>
                   in \<lparr>final = s'\<lparr>isValidating := False\<rparr>, calls = issued,
                       notified = (case onValidate of None \<Rightarrow> seen | Some _ \<Rightarrow> seen @ [errorResult]),
                       ended = (case call_opt onValidate errorResult of
                                  None \<Rightarrow> Returned | Some e' \<Rightarrow> Threw e')\<rparr>)
             in case api eid (code st) of
                  None \<Rightarrow> \<lparr>final = st1, calls = issued, notified = [], ended = Pending\<rparr>
                | Some (Inl e) \<Rightarrow> catch st1 [] e
                | Some (Inr result) \<Rightarrow>
                    (let st2 = st1\<lparr>validationResult := Some result\<rparr>;
                         seen = (case onValidate of None \<Rightarrow> [] | Some _ \<Rightarrow> [result])
                     in case call_opt onValidate result of
                          None \<Rightarrow> \<lparr>final = st2\<lparr>isValidating := False\<rparr>, calls = issued,
                                   notified = seen, ended = Returned\<rparr>
                        | Some e \<Rightarrow> catch st2 seen e)))"

definition toggleHints :: "'v CodeEditorState \<Rightarrow> 'v CodeEditorState" where
  "toggleHints st = st\<lparr>showHints := \<not> showHints st\<rparr>"

text \<open>\<^verbatim>\<open>resetCode\<close>: the state update, and the code handed to \<^verbatim>\<open>onCodeChange\<close>.\<close>

definition resetCode :: "string \<Rightarrow> 'v CodeEditorState \<Rightarrow> 'v CodeEditorState \<times> string" where
  "resetCode initialCode st =
     (st\<lparr>code := initialCode, executionResult := None, validationResult := None\<rparr>, initialCode)"

section \<open>The exercise page (ExerciseDisplay)\<close>

text \<open>
  Of \<^verbatim>\<open>Exercise\<close> the component reads \<^verbatim>\<open>id\<close>, \<^verbatim>\<open>starter_code\<close> (optional), \<^verbatim>\<open>hints\<close> and
  \<^verbatim>\<open>points\<close>. The component's state is its seven \<^verbatim>\<open>useState\<close> cells; the names shared with
  the editor's state carry the suffix \<open>_d\<close>.
\<close>

record Exercise =
  exercise_id :: string
  starter_code :: "string option"
  exercise_hints :: "string list"
  points :: nat

record 'v ExerciseDisplayState =
  code_d :: string
  isSubmitting :: bool
  validationResult_d :: "'v ExerciseValidationResult option"
  showHints_d :: bool
  attempts :: nat
  startTime :: nat
  timeSpent :: nat

text \<open>
  \<^verbatim>\<open>code.trim()\<close> removes white space and line terminators from both ends. The code units
  of the model's alphabet that ECMAScript counts as such are TAB, LF, VT, FF, CR, SP and
  NBSP. \<open>or_empty\<close> is \<^verbatim>\<open>exercise.starter_code || ''\<close>.
\<close>

definition is_space :: "char \<Rightarrow> bool" where
  "is_space c = (of_char c \<in> {9, 10, 11, 12, 13, 32, 160 :: nat})"

definition trim :: "string \<Rightarrow> string" where
  "trim s = rev (dropWhile is_space (rev (dropWhile is_space s)))"

definition or_empty :: "string option \<Rightarrow> string" where
  "or_empty s = (case s of None \<Rightarrow> [] | Some t \<Rightarrow> t)"

definition display_initial :: "Exercise \<Rightarrow> nat \<Rightarrow> 'v ExerciseDisplayState" where
  "display_initial exercise now =
     \<lparr>code_d = or_empty (starter_code exercise), isSubmitting = False,
      validationResult_d = None, showHints_d = False, attempts = 0, startTime = now,
      timeSpent = 0\<rparr>"

definition submit_fallback :: "'v ExerciseValidationResult" where
  "submit_fallback =
     \<lparr>success_v = False, passed_tests = 0, total_tests = 0, test_results = [], score = 0,
      feedback = ''Failed to validate exercise. Please try again.''\<rparr>"

text \<open>
  \<^verbatim>\<open>handleSubmit\<close>. \<open>user\<close> is the signed-in user or \<open>None\<close>; \<open>api\<close> is
  \<^verbatim>\<open>apiClient.validateExercise\<close>; \<open>submitExercise\<close> is the progress context's function, which
  rethrows what its API call throws and settles when that call does. The \<^verbatim>\<open>catch\<close> swallows
  every throw of the \<^verbatim>\<open>try\<close> block.
\<close>

definition handleSubmit ::
  "(string \<Rightarrow> string \<Rightarrow> (thrown + 'v ExerciseValidationResult) option) \<Rightarrow>
   (string \<Rightarrow> string \<Rightarrow> (thrown + unit) option) \<Rightarrow> 'v ExerciseValidationResult callback \<Rightarrow>
   'u option \<Rightarrow> Exercise \<Rightarrow> 'v ExerciseDisplayState \<Rightarrow>
   ('v ExerciseDisplayState, 'v ExerciseValidationResult) handled" where
  "handleSubmit api submitExercise onComplete user exercise st =
     (if user = None \<or> trim (code_d st) = [] then
        \<lparr>final = st, calls = [], notified = [], ended = Returned\<rparr>
      else
        (let st1 = st\<lparr>isSubmitting := True, attempts := attempts st + 1\<rparr>;
             v = ValidateCall (exercise_id exercise) (code_d st);
             s = SubmitCall (exercise_id exercise) (code_d st);
             catch = (\<lambda>st' cs seen.
               \<lparr>final = st'\<lparr>validationResult_d := Some submit_fallback, isSubmitting := False\<rparr>,
                calls = cs, notified = seen, ended = Returned\<rparr>)
         in case api (exercise_id exercise) (code_d st) of
              None \<Rightarrow> \<lparr>final = st1, calls = [v], notified = [], ended = Pending\<rparr>
            | Some (Inl e) \<Rightarrow> catch st1 [v] []
            | Some (Inr result) \<Rightarrow>
                (let st2 = st1\<lparr>validationResult_d := Some result\<rparr>
                 in if success_v result then
                      (case submitExercise (exercise_id exercise) (code_d st) of
                         None \<Rightarrow> \<lparr>final = st2, calls = [v, s], notified = [], ended = Pending\<rparr>
                       | Some (Inl e) \<Rightarrow> catch st2 [v, s] []
                       | Some (Inr u) \<Rightarrow>
                           (let seen = (case onComplete of None \<Rightarrow> [] | Some _ \<Rightarrow> [result])
                            in case call_opt onComplete result of
                                 Some e \<Rightarrow> catch st2 [v, s] seen
                               | None \<Rightarrow> \<lparr>final = st2\<lparr>isSubmitting := False\<rparr>, calls = [v, s],
                                          notified = seen, ended = Returned\<rparr>))
                    else \<lparr>final = st2\<lparr>isSubmitting := False\<rparr>, calls = [v],
                          notified = [], ended = Returned\<rparr>)))"

text \<open>The submit button's \<^verbatim>\<open>disabled\<close> attribute.\<close>

definition submit_disabled :: "'v ExerciseDisplayState \<Rightarrow> bool" where
  "submit_disabled st = (isSubmitting st \<or> trim (code_d st) = [])"

definition handleReset :: "Exercise \<Rightarrow> 'v ExerciseDisplayState \<Rightarrow> 'v ExerciseDisplayState" where
  "handleReset exercise st =
     st\<lparr>code_d := or_empty (starter_code exercise), validationResult_d := None\<rparr>"

section \<open>Progressive hints (ExerciseHints)\<close>

record HintsState =
  availableHints :: "string list"
  revealedHints :: nat
  isLoading :: bool

text \<open>
  The effect on \<^verbatim>\<open>[attempts, availableHints.length]\<close>; \<^verbatim>\<open>attempts\<close> counts submissions, a
  natural number, so \<^verbatim>\<open>Math.floor(attempts / 2)\<close> is \<open>attempts div 2\<close>.
\<close>

definition reveal_effect :: "nat \<Rightarrow> HintsState \<Rightarrow> HintsState" where
  "reveal_effect a st = st\<lparr>revealedHints := min (a div 2) (length (availableHints st))\<rparr>"

definition revealNextHint :: "HintsState \<Rightarrow> HintsState" where
  "revealNextHint st =
     (if revealedHints st < length (availableHints st)
      then st\<lparr>revealedHints := revealedHints st + 1\<rparr> else st)"

text \<open>
  The render: the loading notice and the "no hints" notice return early; the "Reveal Next
  Hint" button stands in the block guarded by
  \<^verbatim>\<open>revealedHints < availableHints.length\<close> and is rendered when
  \<^verbatim>\<open>attempts >= (revealedHints + 1) * 2\<close>.
\<close>

definition next_hint_enabled :: "nat \<Rightarrow> HintsState \<Rightarrow> bool" where
  "next_hint_enabled a st =
     (\<not> isLoading st \<and> availableHints st \<noteq> [] \<and>
      revealedHints st < length (availableHints st) \<and> (revealedHints st + 1) * 2 \<le> a)"

text \<open>
  What \<^verbatim>\<open>getExerciseHints\<close> resolves with: an array, or an object whose \<^verbatim>\<open>hints\<close> property
  is there or not (a null response has none). \<open>loadHints\<close> takes the \<^verbatim>\<open>hints\<close> prop and the
  outcome of the call.
\<close>

datatype hints_response = HintsArray "string list" | HintsObject "string list option"

definition loadHints :: "string list \<Rightarrow> thrown + hints_response \<Rightarrow> HintsState \<Rightarrow> HintsState" where
  "loadHints hs r st =
     (let hintsData = (case r of
            Inl e \<Rightarrow> hs
          | Inr (HintsArray xs) \<Rightarrow> xs
          | Inr (HintsObject None) \<Rightarrow> hs
          | Inr (HintsObject (Some xs)) \<Rightarrow> xs)
      in st\<lparr>availableHints := hintsData, isLoading := False\<rparr>)"

text \<open>
  The component over time. Its events: the parent passes a new \<^verbatim>\<open>attempts\<close>; the exercise
  changes and a load starts; a load ends; the user clicks the button, which exists only
  while it is rendered. React runs the reveal effect after an event that changed one of
  its dependencies, before the next event is handled.
\<close>

datatype hints_event =
    AttemptsChanged nat
  | ExerciseChanged
  | HintsLoaded "thrown + hints_response"
  | ClickNext

text \<open>The state once the mount effects have run: the load has started, and the reveal
  effect has run on the empty list.\<close>

definition mounted :: "HintsState" where
  "mounted = \<lparr>availableHints = [], revealedHints = 0, isLoading = True\<rparr>"

fun after_event :: "string list \<Rightarrow> nat \<times> HintsState \<Rightarrow> hints_event \<Rightarrow> nat \<times> HintsState" where
  "after_event hs (a, st) (AttemptsChanged a') =
     (a', if a' = a then st else reveal_effect a' st)"
| "after_event hs (a, st) ExerciseChanged = (a, st\<lparr>isLoading := True\<rparr>)"
| "after_event hs (a, st) (HintsLoaded r) =
     (let st' = loadHints hs r st
      in (a, if length (availableHints st') = length (availableHints st) then st'
             else reveal_effect a st'))"
| "after_event hs (a, st) ClickNext =
     (a, if next_hint_enabled a st then revealNextHint st else st)"

definition after_events :: "string list \<Rightarrow> nat \<Rightarrow> hints_event list \<Rightarrow> nat \<times> HintsState" where
  "after_events hs a evs = foldl (after_event hs) (a, mounted) evs"

section \<open>The API client (services/api)\<close>

text \<open>
  Of \<^verbatim>\<open>AuthTokens\<close> the client reads \<^verbatim>\<open>access_token\<close> and \<^verbatim>\<open>refresh_token\<close>; a missing or empty
  token is the empty string (both are falsy). A request configuration carries the
  \<^verbatim>\<open>Authorization\<close> header and the interceptor's \<^verbatim>\<open>_retry\<close> mark.
\<close>

record AuthTokens =
  access_token :: string
  refresh_token :: string

record AxiosRequestConfig =
  verb :: string
  url :: string
  body :: string
  authorization :: "string option"
  retry :: bool

datatype payload = TokenData AuthTokens | OtherData string

text \<open>A response: a 2xx answer with its data, or a failure with the status of
  \<^verbatim>\<open>error.response\<close>, \<open>None\<close> when no response came (network error, timeout).\<close>

datatype response = Success payload | Failure "nat option"

text \<open>What a call of the client rejects with: the axios error of a failed request, or the
  \<^verbatim>\<open>Error('No refresh token available')\<close> of \<^verbatim>\<open>refreshToken\<close>.\<close>

datatype api_error = AxiosError "nat option" AxiosRequestConfig | NoRefreshToken

text \<open>
  The client: \<^verbatim>\<open>this.tokens\<close>, the \<^verbatim>\<open>auth_tokens\<close> item of \<^verbatim>\<open>localStorage\<close>,
  \<^verbatim>\<open>window.location.href\<close>, and the requests that have left the browser so far, oldest
  first. The server is a function of the number of requests it has seen and of the request.
\<close>

record ApiClient =
  tokens :: "AuthTokens option"
  storage :: "AuthTokens option"
  location :: string
  sent :: "AxiosRequestConfig list"

type_synonym server = "nat \<Rightarrow> AxiosRequestConfig \<Rightarrow> response"

definition request_interceptor :: "ApiClient \<Rightarrow> AxiosRequestConfig \<Rightarrow> AxiosRequestConfig" where
  "request_interceptor c config =
     (case tokens c of
        None \<Rightarrow> config
      | Some t \<Rightarrow>
          if access_token t = [] then config
          else config\<lparr>authorization := Some (''Bearer '' @ access_token t)\<rparr>)"

definition saveTokensToStorage :: "AuthTokens \<Rightarrow> ApiClient \<Rightarrow> ApiClient" where
  "saveTokensToStorage t c = c\<lparr>tokens := Some t, storage := Some t\<rparr>"

definition clearTokens :: "ApiClient \<Rightarrow> ApiClient" where
  "clearTokens c = c\<lparr>tokens := None, storage := None\<rparr>"

definition as_tokens :: "payload \<Rightarrow> AuthTokens" where
  "as_tokens d =
     (case d of TokenData t \<Rightarrow> t | OtherData _ \<Rightarrow> \<lparr>access_token = [], refresh_token = []\<rparr>)"

definition post :: "string \<Rightarrow> string \<Rightarrow> AxiosRequestConfig" where
  "post u b = \<lparr>verb = ''post'', url = u, body = b, authorization = None, retry = False\<rparr>"

definition refresh_url :: string where
  "refresh_url = ''/auth/refresh''"

text \<open>
  \<open>dispatch\<close> is \<^verbatim>\<open>this.client(config)\<close>: the request interceptor, the request itself, and on
  a failure the response interceptor, which calls \<^verbatim>\<open>refreshToken\<close>, which sends a request
  through the same client. Nothing bounds this recursion in the source (a server that
  answers every refresh with 401 keeps it going), so the model counts fuel down and
  \<open>None\<close> stands for a call that has not settled when the fuel is spent.
  The retried request is returned, not awaited, inside the \<^verbatim>\<open>try\<close>: its failure does not
  reach the \<^verbatim>\<open>catch\<close>.
\<close>

fun dispatch :: "nat \<Rightarrow> server \<Rightarrow> ApiClient \<Rightarrow> AxiosRequestConfig \<Rightarrow>
      (ApiClient \<times> (api_error + payload)) option"
  and refreshToken :: "nat \<Rightarrow> server \<Rightarrow> ApiClient \<Rightarrow>
      (ApiClient \<times> (api_error + AuthTokens)) option" where
  "dispatch 0 srv c config = None"
| "dispatch (Suc n) srv c config =
     (let config1 = request_interceptor c config;
          c1 = c\<lparr>sent := sent c @ [config1]\<rparr>
      in case srv (length (sent c)) config1 of
           Success d \<Rightarrow> Some (c1, Inr d)
         | Failure status \<Rightarrow>
             if status = Some 401 \<and> \<not> retry config1 then
               (let originalRequest = config1\<lparr>retry := True\<rparr>
                in case refreshToken n srv c1 of
                     None \<Rightarrow> None
                   | Some (c2, Inl refreshError) \<Rightarrow>
                       Some ((clearTokens c2)\<lparr>location := ''/login''\<rparr>, Inl refreshError)
                   | Some (c2, Inr t) \<Rightarrow> dispatch n srv c2 originalRequest)
             else Some (c1, Inl (AxiosError status config1)))"
| "refreshToken n srv c =
     (case tokens c of
        None \<Rightarrow> Some (c, Inl NoRefreshToken)
      | Some t \<Rightarrow>
          if refresh_token t = [] then Some (c, Inl NoRefreshToken)
          else
            (case dispatch n srv c (post refresh_url (refresh_token t)) of
               None \<Rightarrow> None
             | Some (c', Inl e) \<Rightarrow> Some (c', Inl e)
             | Some (c', Inr d) \<Rightarrow> Some (saveTokensToStorage (as_tokens d) c', Inr (as_tokens d))))"

text \<open>\<^verbatim>\<open>logout\<close>, \<^verbatim>\<open>isAuthenticated\<close> and \<^verbatim>\<open>getTokens\<close>. The \<^verbatim>\<open>finally\<close> of \<^verbatim>\<open>logout\<close> runs
  whether the request resolved or rejected.\<close>

definition logout :: "nat \<Rightarrow> server \<Rightarrow> ApiClient \<Rightarrow> (ApiClient \<times> api_error option) option" where
  "logout n srv c =
     (case dispatch n srv c (post ''/auth/logout'' []) of
        None \<Rightarrow> None
      | Some (c', Inl e) \<Rightarrow> Some (clearTokens c', Some e)
      | Some (c', Inr d) \<Rightarrow> Some (clearTokens c', None))"

definition isAuthenticated :: "ApiClient \<Rightarrow> bool" where
  "isAuthenticated c = (case tokens c of None \<Rightarrow> False | Some t \<Rightarrow> access_token t \<noteq> [])"

definition getTokens :: "ApiClient \<Rightarrow> AuthTokens option" where
  "getTokens c = tokens c"

section \<open>The execution service, from its specification\<close>

text \<open>
  The server side of \<^verbatim>\<open>POST /code/execute\<close> and \<^verbatim>\<open>POST /exercises/validate\<close> is not among
  the sources: the client above only calls it. The definitions of this section follow the
  specification's sections 3, 4 and 6.
\<close>

subsection \<open>Execution driver\<close>

text \<open>
  Modelled from the spec: the sandboxed process that the Execution Driver (section 4.1)
  runs; the driver's implementation is missing. The process is observed once per clock tick
  (a millisecond): it is still running and holds some memory, it has exited with its
  standard output, or it has raised an uncaught error after some output.
\<close>

datatype proc_state = Running nat | Exited string | Faulted string string

text \<open>Modelled from the spec: \<^verbatim>\<open>execution_time\<close> is in seconds (section 3); the missing driver's
  clock ticks are converted.\<close>

definition seconds :: "nat \<Rightarrow> rat" where
  "seconds t = of_nat t / 1000"

text \<open>Modelled from the spec: the timeout marker and the text that tells
  \<^verbatim>\<open>ResourceExceeded\<close> from \<^verbatim>\<open>RuntimeFault\<close> (section 4.1); the missing driver's own texts are
  not known.\<close>

definition timeout_marker :: string where
  "timeout_marker = ''TimeoutExceeded''"

definition memory_marker :: string where
  "memory_marker = ''ResourceExceeded: memory limit''"

text \<open>Modelled from the spec: the result of the missing driver for \<^verbatim>\<open>TimeoutExceeded\<close>
  (section 4.1): \<^verbatim>\<open>success=false\<close>, the error set to the timeout marker, and the execution
  time equal to the timeout, the ceiling and not an estimate.\<close>

definition timed_out :: "nat \<Rightarrow> CodeExecutionResult" where
  "timed_out timeout =
     \<lparr>success = False, output_text = [], error = Some timeout_marker,
      execution_time = seconds timeout, memory_usage = None\<rparr>"

text \<open>Modelled from the spec: the result of the missing driver for a process observed at
  tick \<open>t\<close> (section 4.1). A normal exit is a success with the captured output; an uncaught
  error is a \<^verbatim>\<open>RuntimeFault\<close> with the captured error text and the output produced before
  it; memory above the limit is \<^verbatim>\<open>ResourceExceeded\<close>; a process still running within its
  limit has no result yet.\<close>

definition finished :: "nat \<Rightarrow> nat \<Rightarrow> proc_state \<Rightarrow> CodeExecutionResult option" where
  "finished memory_limit t s =
     (case s of
        Exited out \<Rightarrow>
          Some \<lparr>success = True, output_text = out, error = None,
                execution_time = seconds t, memory_usage = None\<rparr>
      | Faulted out err \<Rightarrow>
          Some \<lparr>success = False, output_text = out, error = Some err,
                execution_time = seconds t, memory_usage = None\<rparr>
      | Running mem \<Rightarrow>
          if memory_limit < mem then
            Some \<lparr>success = False, output_text = [], error = Some memory_marker,
                  execution_time = seconds t, memory_usage = Some mem\<rparr>
          else None)"

text \<open>Modelled from the spec: the supervision loop of the missing Execution Driver
  (section 4.1). It watches the process from tick \<open>t\<close> for \<open>k\<close> more ticks; a process that
  has not finished when the ticks are used up did not finish within the timeout.\<close>

fun watch :: "nat \<Rightarrow> nat \<Rightarrow> (nat \<Rightarrow> proc_state) \<Rightarrow> nat \<Rightarrow> nat \<Rightarrow> CodeExecutionResult" where
  "watch timeout memory_limit p t 0 =
     (case finished memory_limit t (p t) of Some r \<Rightarrow> r | None \<Rightarrow> timed_out timeout)"
| "watch timeout memory_limit p t (Suc k) =
     (case finished memory_limit t (p t) of
        Some r \<Rightarrow> r
      | None \<Rightarrow> watch timeout memory_limit p (Suc t) k)"

text \<open>Modelled from the spec: the missing Execution Driver itself (section 4.1): one
  program, run to completion or to a limit, from tick \<open>0\<close> to the tick of the timeout.\<close>

definition run_driver :: "nat \<Rightarrow> nat \<Rightarrow> (nat \<Rightarrow> proc_state) \<Rightarrow> CodeExecutionResult" where
  "run_driver timeout memory_limit p = watch timeout memory_limit p 0 timeout"

subsection \<open>Request validation and the two operations\<close>

text \<open>Modelled from the spec: the caller-visible failures of the missing service that are
  signalled on the transport level (section 7).\<close>

datatype service_error = InvalidRequest | NotFound | SandboxFault

text \<open>Modelled from the spec: the fixed ceilings of the missing service (sections 4.1 and
  4.3): the maximum length of the code, the timeout in ticks, the memory limit.\<close>

record limits =
  max_code_length :: nat
  timeout :: nat
  memory_limit :: nat

text \<open>Modelled from the spec: the missing request validation (section 4.3). The code must
  be non-empty and under the maximum length.\<close>

definition invalid_request :: "limits \<Rightarrow> string \<Rightarrow> bool" where
  "invalid_request cfg src = (src = [] \<or> max_code_length cfg \<le> length src)"

text \<open>
  Modelled from the spec: the missing operation \<^verbatim>\<open>execute(code, language)\<close> (sections 4.3
  and 6). An invalid request fails with \<^verbatim>\<open>InvalidRequest\<close> before any sandbox is asked for.
  \<open>sandbox code i\<close> is the \<open>i\<close>-th attempt to start the code in a sandbox: the process, or
  \<open>None\<close> for a \<^verbatim>\<open>SandboxFault\<close>, the one failure that is retried once.
\<close>

definition execute ::
  "limits \<Rightarrow> (string \<Rightarrow> nat \<Rightarrow> (nat \<Rightarrow> proc_state) option) \<Rightarrow> string \<Rightarrow>
   service_error + CodeExecutionResult" where
  "execute cfg sandbox src =
     (if invalid_request cfg src then Inl InvalidRequest
      else case sandbox src 0 of
             Some p \<Rightarrow> Inr (run_driver (timeout cfg) (memory_limit cfg) p)
           | None \<Rightarrow>
               (case sandbox src 1 of
                  Some p \<Rightarrow> Inr (run_driver (timeout cfg) (memory_limit cfg) p)
                | None \<Rightarrow> Inl SandboxFault))"

subsection \<open>Test harness and comparator\<close>

text \<open>Modelled from the spec: a test case (section 3), and what the content collaborator
  returns for an exercise (section 6): the ordered test cases, and the weighted scoring
  scheme when the collaborator defines one. The missing service reads both.\<close>

record 'v TestCase =
  tc_name :: string
  tc_expected :: 'v

record 'v exercise_tests =
  test_cases :: "'v TestCase list"
  weighted_scheme :: "(nat \<Rightarrow> nat \<Rightarrow> int) option"

text \<open>
  Modelled from the spec: one test case in the missing harness (section 4.2).
  \<open>candidate tc\<close> is what the candidate code does on the test case: the value it produces,
  or the text of the fault it raises. \<open>same\<close> is the comparison rule, structural equality
  after normalisation. A fault gives \<^verbatim>\<open>passed=false\<close> with the fault text; a mismatch gives
  \<^verbatim>\<open>passed=false\<close> without an error and with both values.
\<close>

definition run_test ::
  "('v \<Rightarrow> 'v \<Rightarrow> bool) \<Rightarrow> ('v TestCase \<Rightarrow> string + 'v) \<Rightarrow> 'v TestCase \<Rightarrow> 'v TestResult" where
  "run_test same candidate tc =
     (case candidate tc of
        Inl fault \<Rightarrow>
          \<lparr>name = tc_name tc, passed = False, expected = tc_expected tc, actual = None,
           error_t = Some fault\<rparr>
      | Inr a \<Rightarrow>
          \<lparr>name = tc_name tc, passed = same (tc_expected tc) a, expected = tc_expected tc,
           actual = Some a, error_t = None\<rparr>)"

text \<open>
  Modelled from the spec: the score of the missing service (section 3): conventionally
  \<^verbatim>\<open>round(100 * passed_tests / total_tests)\<close>, computed here on integers with halves rounded
  up, unless the collaborator defines a weighted scheme, a function of the passed and the
  total count; \<open>0\<close> without test cases.
\<close>

definition score_of :: "(nat \<Rightarrow> nat \<Rightarrow> int) option \<Rightarrow> nat \<Rightarrow> nat \<Rightarrow> int" where
  "score_of scheme k n =
     (if n = 0 then 0
      else case scheme of
             None \<Rightarrow> int ((200 * k + n) div (2 * n))
           | Some weighted \<Rightarrow> weighted k n)"

text \<open>Modelled from the spec: the feedback text of the missing service, derived from the
  pass ratio (section 4.2); the wording is not specified.\<close>

definition feedback_of :: "nat \<Rightarrow> nat \<Rightarrow> string" where
  "feedback_of k n =
     (if n = 0 then ''No tests configured for this exercise.''
      else if k = n then ''All tests passed. Exercise complete.''
      else ''Some tests are still failing.'')"

text \<open>Modelled from the spec: the missing harness over all test cases and the aggregation
  into an \<^verbatim>\<open>ExerciseValidationResult\<close> (section 4.2): every test case runs, in the order of
  the definitions, and \<^verbatim>\<open>success = (passed_tests == total_tests) && total_tests > 0\<close>.\<close>

definition grade ::
  "(nat \<Rightarrow> nat \<Rightarrow> int) option \<Rightarrow> ('v \<Rightarrow> 'v \<Rightarrow> bool) \<Rightarrow> ('v TestCase \<Rightarrow> string + 'v) \<Rightarrow>
   'v TestCase list \<Rightarrow> 'v ExerciseValidationResult" where
  "grade scheme same candidate tcs =
     (let results = map (run_test same candidate) tcs;
          k = length (filter passed results);
          n = length tcs
      in \<lparr>success_v = (k = n \<and> 0 < n), passed_tests = k, total_tests = n,
          test_results = results, score = score_of scheme k n, feedback = feedback_of k n\<rparr>)"

text \<open>
  Modelled from the spec: the missing operation \<^verbatim>\<open>validate(exercise_id, code)\<close> (sections 4.3
  and 6). An invalid request fails with \<^verbatim>\<open>InvalidRequest\<close>; an identifier that the content
  collaborator \<open>content\<close> does not resolve fails with \<^verbatim>\<open>NotFound\<close>; otherwise the code is
  graded against the exercise's test cases. \<open>run src tc\<close> is what the code \<open>src\<close> does on
  the test case \<open>tc\<close>.
\<close>

definition validate ::
  "limits \<Rightarrow> ('v \<Rightarrow> 'v \<Rightarrow> bool) \<Rightarrow> (string \<Rightarrow> 'v exercise_tests option) \<Rightarrow>
   (string \<Rightarrow> 'v TestCase \<Rightarrow> string + 'v) \<Rightarrow> string \<Rightarrow> string \<Rightarrow>
   service_error + 'v ExerciseValidationResult" where
  "validate cfg same content run exercise src =
     (if invalid_request cfg src then Inl InvalidRequest
      else case content exercise of
             None \<Rightarrow> Inl NotFound
           | Some ex \<Rightarrow> Inr (grade (weighted_scheme ex) same (run src) (test_cases ex)))"

text \<open>A test case is passed when the candidate produces a value that the comparison rule
  accepts for the expected one.\<close>

definition passes ::
  "('v \<Rightarrow> 'v \<Rightarrow> bool) \<Rightarrow> ('v TestCase \<Rightarrow> string + 'v) \<Rightarrow> 'v TestCase \<Rightarrow> bool" where
  "passes same candidate tc =
     (case candidate tc of Inl fault \<Rightarrow> False | Inr a \<Rightarrow> same (tc_expected tc) a)"

text \<open>The scale of the exercise page, which shows the score as
  \<^verbatim>\<open>{validationResult.score}/{exercise.points}\<close>: the share of the exercise's points, with
  halves rounded up.\<close>

definition points_scale :: "nat \<Rightarrow> nat \<Rightarrow> nat \<Rightarrow> int" where
  "points_scale pts k n = int ((2 * pts * k + n) div (2 * n))"

subsection \<open>The client over the service\<close>

text \<open>
  \<^verbatim>\<open>apiClient.executeCode\<close> as the editor sees it when the service above answers. A failure
  \<open>net\<close> on the way (no response, a time-out of the HTTP client) rejects; a service error
  is signalled on the transport level and rejects with the error \<open>signal\<close> makes of it; a
  result resolves unchanged (\<^verbatim>\<open>return response.data\<close>).
\<close>

definition executeCode_api ::
  "thrown option \<Rightarrow> (service_error \<Rightarrow> thrown) \<Rightarrow> limits \<Rightarrow>
   (string \<Rightarrow> nat \<Rightarrow> (nat \<Rightarrow> proc_state) option) \<Rightarrow>
   string \<Rightarrow> string \<Rightarrow> (thrown + CodeExecutionResult) option" where
  "executeCode_api net signal cfg sandbox src language =
     Some (case net of
             Some e \<Rightarrow> Inl e
           | None \<Rightarrow>
               (case execute cfg sandbox src of
                  Inl err \<Rightarrow> Inl (signal err)
                | Inr r \<Rightarrow> Inr r))"

section \<open>Notions used in the statements\<close>

text \<open>A state of the hints component is settled when its revealed count is the value
  the effect computes from the attempts and the hints.\<close>

definition settled :: "nat \<times> HintsState \<Rightarrow> bool" where
  "settled p = (revealedHints (snd p) = min (fst p div 2) (length (availableHints (snd p))))"

text \<open>The requests a call of the client has added to the log, between the client before
  the call and the client after it.\<close>

definition added :: "ApiClient \<Rightarrow> ApiClient \<Rightarrow> AxiosRequestConfig list" where
  "added c c' = drop (length (sent c)) (sent c')"

text \<open>What a call leaves in the log: the request itself, then only refresh requests and
  at most one more send of the request, marked as retried.\<close>

definition traffic :: "nat \<Rightarrow> server \<Rightarrow> bool" where
  "traffic n srv =
     ((\<forall>c config c' out. dispatch n srv c config = Some (c', out) \<longrightarrow>
        (\<exists>rest. sent c' = sent c @ request_interceptor c config # rest \<and>
           (\<forall>r \<in> set rest. url r = refresh_url \<or> url r = url config \<and> retry r) \<and>
           length (filter (\<lambda>r. url r \<noteq> refresh_url) rest) \<le> (if retry config then 0 else 1))) \<and>
      (\<forall>c c' out. refreshToken n srv c = Some (c', out) \<longrightarrow>
        (\<exists>new. sent c' = sent c @ new \<and> (\<forall>r \<in> set new. url r = refresh_url))))"

text \<open>The invariant of an execution result: \<open>success\<close> exactly when no error is recorded.\<close>

definition well_formed :: "CodeExecutionResult \<Rightarrow> bool" where
  "well_formed r = (success r = (error r = None))"

text \<open>
  Concrete surroundings for the examples: a server that answers the \<open>k\<close>-th request with
  the \<open>k\<close>-th response of a script and fails without a response afterwards; a signed-in
  client; an API whose every call rejects with a network error; an exercise with starter
  code.
\<close>

definition scripted :: "response list \<Rightarrow> server" where
  "scripted rs k config = (if k < length rs then rs ! k else Failure None)"

definition client0 :: ApiClient where
  "client0 = \<lparr>tokens = Some \<lparr>access_token = ''a1'', refresh_token = ''r1''\<rparr>,
              storage = Some \<lparr>access_token = ''a1'', refresh_token = ''r1''\<rparr>,
              location = ''/exercise'', sent = []\<rparr>"

definition request0 :: AxiosRequestConfig where
  "request0 = post ''/code/execute'' ''x = 1''"

text \<open>A session whose access token has expired: the first request is answered with 401,
  the refresh succeeds, the retried request succeeds. \<open>client_mid\<close> is the client after the
  refresh, \<open>client1\<close> the client after the retried request.\<close>

definition script1 :: "response list" where
  "script1 = [Failure (Some 401),
              Success (TokenData \<lparr>access_token = ''a2'', refresh_token = ''r2''\<rparr>),
              Success (OtherData ''ok'')]"

definition client_mid :: ApiClient where
  "client_mid = \<lparr>tokens = Some \<lparr>access_token = ''a2'', refresh_token = ''r2''\<rparr>,
                 storage = Some \<lparr>access_token = ''a2'', refresh_token = ''r2''\<rparr>,
                 location = ''/exercise'',
                 sent = [\<lparr>verb = ''post'', url = ''/code/execute'', body = ''x = 1'',
                          authorization = Some ''Bearer a1'', retry = False\<rparr>,
                         \<lparr>verb = ''post'', url = ''/auth/refresh'', body = ''r1'',
                          authorization = Some ''Bearer a1'', retry = False\<rparr>]\<rparr>"

definition client1 :: ApiClient where
  "client1 = \<lparr>tokens = Some \<lparr>access_token = ''a2'', refresh_token = ''r2''\<rparr>,
              storage = Some \<lparr>access_token = ''a2'', refresh_token = ''r2''\<rparr>,
              location = ''/exercise'',
              sent = [\<lparr>verb = ''post'', url = ''/code/execute'', body = ''x = 1'',
                       authorization = Some ''Bearer a1'', retry = False\<rparr>,
                      \<lparr>verb = ''post'', url = ''/auth/refresh'', body = ''r1'',
                       authorization = Some ''Bearer a1'', retry = False\<rparr>,
                      \<lparr>verb = ''post'', url = ''/code/execute'', body = ''x = 1'',
                       authorization = Some ''Bearer a2'', retry = True\<rparr>]\<rparr>"

text \<open>
  The service's ceilings for the examples; code that produces the expected value on every
  test case; three test cases; and a content collaborator that knows four exercises: the
  specification's example, the three test cases scored conventionally, the three test
  cases scored on the scale of a 10-point exercise, and an exercise without test cases.
\<close>

definition cfg0 :: limits where
  "cfg0 = \<lparr>max_code_length = 10000, timeout = 2000, memory_limit = 64\<rparr>"

definition solution :: "string \<Rightarrow> 'v TestCase \<Rightarrow> string + 'v" where
  "solution src tc = Inr (tc_expected tc)"

definition three_cases :: "int TestCase list" where
  "three_cases = [\<lparr>tc_name = ''Test 1'', tc_expected = 200\<rparr>,
                  \<lparr>tc_name = ''Test 2'', tc_expected = 404\<rparr>,
                  \<lparr>tc_name = ''Test 3'', tc_expected = 1\<rparr>]"

definition library :: "string \<Rightarrow> int exercise_tests option" where
  "library exercise =
     (if exercise = ''example'' then
        Some \<lparr>test_cases = [\<lparr>tc_name = ''t1'', tc_expected = 8\<rparr>], weighted_scheme = None\<rparr>
      else if exercise = ''plain'' then
        Some \<lparr>test_cases = three_cases, weighted_scheme = None\<rparr>
      else if exercise = ''exercise-1'' then
        Some \<lparr>test_cases = three_cases, weighted_scheme = Some (points_scale 10)\<rparr>
      else if exercise = ''empty'' then
        Some \<lparr>test_cases = [], weighted_scheme = None\<rparr>
      else None)"

definition api_offline :: "string \<Rightarrow> string \<Rightarrow> (thrown + 'r) option" where
  "api_offline a b = Some (Inl (ErrorObj ''Network Error''))"

definition api_offline_submit :: "string \<Rightarrow> string \<Rightarrow> (thrown + unit) option" where
  "api_offline_submit a b = Some (Inl (ErrorObj ''Network Error''))"

definition api_ok_submit :: "string \<Rightarrow> string \<Rightarrow> (thrown + unit) option" where
  "api_ok_submit a b = Some (Inr ())"

text \<open>An API whose calls never settle; a validation API that fails every submission on one
  test and one that passes it; and a server that answers every request, the refresh
  requests too, with 401: behind it, a call of a client that holds a refresh token never
  settles.\<close>

definition api_pending :: "string \<Rightarrow> string \<Rightarrow> (thrown + 'r) option" where
  "api_pending a b = None"

definition api_failing :: "string \<Rightarrow> string \<Rightarrow> (thrown + unit ExerciseValidationResult) option" where
  "api_failing a b =
     Some (Inr \<lparr>success_v = False, passed_tests = 0, total_tests = 1,
                test_results = [\<lparr>name = ''t1'', passed = False, expected = (), actual = None,
                                 error_t = Some ''NameError''\<rparr>],
                score = 0, feedback = ''0 of 1 tests passed''\<rparr>)"

definition api_passing :: "string \<Rightarrow> string \<Rightarrow> (thrown + unit ExerciseValidationResult) option" where
  "api_passing a b =
     Some (Inr \<lparr>success_v = True, passed_tests = 1, total_tests = 1,
                test_results = [\<lparr>name = ''t1'', passed = True, expected = (), actual = Some (),
                                 error_t = None\<rparr>],
                score = 100, feedback = ''All tests passed''\<rparr>)"

definition unauthorized :: server where
  "unauthorized k config = Failure (Some 401)"

text \<open>A client that holds no tokens; and a sandbox in which every program exits at once
  without output, as a program of white space does.\<close>

definition client_anon :: ApiClient where
  "client_anon = \<lparr>tokens = None, storage = None, location = ''/exercise'', sent = []\<rparr>"



definition exercise1 :: Exercise where
  "exercise1 = \<lparr>exercise_id = ''exercise-1'', starter_code = Some ''x = 1'',
                exercise_hints = [], points = 10\<rparr>"

section \<open>Reset leaves the rest of the state alone\<close>

text \<open>
  C9. Resetting the code editor puts the initial code back into the code field and clears
  the execution result and the validation result; the hints, the show-hints flag and the
  two in-progress flags keep their values, and the parent is told the initial code. The
  reset of the exercise page sets its code to the starter code (the empty string when the
  exercise has none) and clears its validation result; the attempts counter, the time
  spent, the start time, the submitting flag and the show-hints flag keep their values.
\<close>

theorem reset_frame:
  "code (fst (resetCode initialCode st)) = initialCode \<and>
   executionResult (fst (resetCode initialCode st)) = None \<and>
   validationResult (fst (resetCode initialCode st)) = None \<and>
   snd (resetCode initialCode st) = initialCode \<and>
   hints (fst (resetCode initialCode st)) = hints st \<and>
   showHints (fst (resetCode initialCode st)) = showHints st \<and>
   isExecuting (fst (resetCode initialCode st)) = isExecuting st \<and>
   isValidating (fst (resetCode initialCode st)) = isValidating st \<and>
   code_d (handleReset exercise d) = or_empty (starter_code exercise) \<and>
   validationResult_d (handleReset exercise d) = None \<and>
   attempts (handleReset exercise d) = attempts d \<and>
   timeSpent (handleReset exercise d) = timeSpent d \<and>
   startTime (handleReset exercise d) = startTime d \<and>
   isSubmitting (handleReset exercise d) = isSubmitting d \<and>
   showHints_d (handleReset exercise d) = showHints_d d"
  by (simp add: resetCode_def handleReset_def)

section \<open>Hint revelation\<close>

lemma settled_not_enabled: "settled (a, st) \<Longrightarrow> \<not> next_hint_enabled a st"
  by (auto simp: settled_def next_hint_enabled_def min_def split: if_splits)

lemma settled_step: "settled p \<Longrightarrow> settled (after_event hs p ev)"
proof (cases p)
  case (Pair a st)
  assume s: "settled p"
  show ?thesis
  proof (cases ev)
    case (AttemptsChanged a')
    with Pair s show ?thesis by (auto simp: settled_def reveal_effect_def)
  next
    case ExerciseChanged
    with Pair s show ?thesis by (simp add: settled_def)
  next
    case (HintsLoaded r)
    with Pair s show ?thesis
      by (auto simp: settled_def reveal_effect_def loadHints_def Let_def)
  next
    case ClickNext
    with Pair s settled_not_enabled[of a st] show ?thesis by simp
  qed
qed

lemma settled_foldl: "settled p \<Longrightarrow> settled (foldl (after_event hs) p evs)"
  by (induction evs arbitrary: p) (simp_all add: settled_step)

lemma settled_after_events: "settled (after_events hs a evs)"
  unfolding after_events_def by (rule settled_foldl) (simp add: settled_def mounted_def)

text \<open>
  C7. The effect sets the revealed count to \<open>min (a div 2) (length h)\<close>, a function of the
  attempt count and the hint list alone, and after any sequence of events the component's
  revealed count is that value for its current attempts and hints; the count never exceeds
  the number of available hints, also across a manual reveal; and the reveal-next button
  is enabled only when \<open>a \<ge> (revealed + 1) * 2\<close>.
\<close>

theorem hint_revelation:
  "revealedHints (reveal_effect a st) = min (a div 2) (length (availableHints st)) \<and>
   revealedHints (snd (after_events hs a0 evs)) =
     min (fst (after_events hs a0 evs) div 2)
         (length (availableHints (snd (after_events hs a0 evs)))) \<and>
   revealedHints (snd (after_events hs a0 evs)) \<le>
     length (availableHints (snd (after_events hs a0 evs))) \<and>
   (revealedHints st \<le> length (availableHints st) \<longrightarrow>
      revealedHints (revealNextHint st) \<le> length (availableHints st)) \<and>
   (next_hint_enabled a st \<longrightarrow> (revealedHints st + 1) * 2 \<le> a)"
proof -
  have s: "settled (after_events hs a0 evs)" by (rule settled_after_events)
  have "revealedHints (reveal_effect a st) = min (a div 2) (length (availableHints st))"
    by (simp add: reveal_effect_def)
  moreover from s have "revealedHints (snd (after_events hs a0 evs)) =
     min (fst (after_events hs a0 evs) div 2)
         (length (availableHints (snd (after_events hs a0 evs))))"
    by (simp add: settled_def)
  moreover from s have "revealedHints (snd (after_events hs a0 evs)) \<le>
     length (availableHints (snd (after_events hs a0 evs)))"
    by (simp add: settled_def)
  moreover have "revealedHints st \<le> length (availableHints st) \<longrightarrow>
      revealedHints (revealNextHint st) \<le> length (availableHints st)"
    by (simp add: revealNextHint_def)
  moreover have "next_hint_enabled a st \<longrightarrow> (revealedHints st + 1) * 2 \<le> a"
    by (simp add: next_hint_enabled_def)
  ultimately show ?thesis by blast
qed

theorem hint_revelation_witness:
  "next_hint_enabled 2 \<lparr>availableHints = [''a'', ''b'', ''c''], revealedHints = 0, isLoading = False\<rparr> \<and>
   revealedHints (revealNextHint
     \<lparr>availableHints = [''a'', ''b'', ''c''], revealedHints = 0, isLoading = False\<rparr>) \<le> 3 \<and>
   revealedHints (reveal_effect 2
     \<lparr>availableHints = [''a'', ''b'', ''c''], revealedHints = 0, isLoading = False\<rparr>) = 1 \<and>
   after_events [] 0 [HintsLoaded (Inr (HintsArray [''a'', ''b'', ''c''])), AttemptsChanged 5] =
     (5, \<lparr>availableHints = [''a'', ''b'', ''c''], revealedHints = 2, isLoading = False\<rparr>)"
  using hint_revelation [of 2
      "\<lparr>availableHints = [''a'', ''b'', ''c''], revealedHints = 0, isLoading = False\<rparr>"
      "[]" 0 "[HintsLoaded (Inr (HintsArray [''a'', ''b'', ''c''])), AttemptsChanged 5]"]
  by (simp add: next_hint_enabled_def revealNextHint_def reveal_effect_def after_events_def
      mounted_def loadHints_def)

section \<open>The harness and the score\<close>

lemma filter_passed_run_test:
  "length (filter passed (map (run_test same cand) tcs)) = length (filter (passes same cand) tcs)"
  by (induction tcs) (auto simp: run_test_def passes_def split: sum.splits)

lemma name_run_test: "name (run_test same cand tc) = tc_name tc"
  by (simp add: run_test_def split: sum.splits)

lemma expected_run_test: "expected (run_test same cand tc) = tc_expected tc"
  by (simp add: run_test_def split: sum.splits)

lemma passed_run_test: "passed (run_test same cand tc) = passes same cand tc"
  by (simp add: run_test_def passes_def split: sum.splits)

lemma grade_counts:
  "passed_tests (grade scheme same cand tcs) = length (filter (passes same cand) tcs) \<and>
   total_tests (grade scheme same cand tcs) = length tcs \<and>
   length (test_results (grade scheme same cand tcs)) = length tcs \<and>
   map name (test_results (grade scheme same cand tcs)) = map tc_name tcs \<and>
   map expected (test_results (grade scheme same cand tcs)) = map tc_expected tcs \<and>
   map passed (test_results (grade scheme same cand tcs)) = map (passes same cand) tcs \<and>
   success_v (grade scheme same cand tcs) =
     (length (filter (passes same cand) tcs) = length tcs \<and> 0 < length tcs)"
  by (simp add: grade_def Let_def filter_passed_run_test name_run_test passed_run_test
      expected_run_test comp_def)

text \<open>
  C1. For a valid request and an exercise with \<open>N\<close> test cases of which the candidate
  passes exactly \<open>k\<close>, \<open>validate\<close> returns a result with \<open>passed_tests = k\<close> and
  \<open>total_tests = N\<close>; \<open>test_results\<close> has one entry per test case, in the order of the
  definitions (same names, same expected values, each with its own verdict); \<open>success\<close>
  holds exactly when \<open>k = N\<close> and \<open>N > 0\<close>; and for an exercise without test cases the
  result is never successful. The two results the client builds itself when the call
  fails have no test cases either, and are not successful.
\<close>

theorem validate_counts:
  assumes "src \<noteq> []" and "length src < max_code_length cfg" and "content exercise = Some ex"
  shows "\<exists>r. validate cfg same content run exercise src = Inr r \<and>
     passed_tests r = length (filter (passes same (run src)) (test_cases ex)) \<and>
     total_tests r = length (test_cases ex) \<and>
     length (test_results r) = length (test_cases ex) \<and>
     map name (test_results r) = map tc_name (test_cases ex) \<and>
     map expected (test_results r) = map tc_expected (test_cases ex) \<and>
     map passed (test_results r) = map (passes same (run src)) (test_cases ex) \<and>
     success_v r =
       (length (filter (passes same (run src)) (test_cases ex)) = length (test_cases ex) \<and>
        0 < length (test_cases ex)) \<and>
     (test_cases ex = [] \<longrightarrow> \<not> success_v r) \<and>
     total_tests (validate_fallback e :: 'v ExerciseValidationResult) = 0 \<and>
     \<not> success_v (validate_fallback e :: 'v ExerciseValidationResult) \<and>
     total_tests (submit_fallback :: 'v ExerciseValidationResult) = 0 \<and>
     \<not> success_v (submit_fallback :: 'v ExerciseValidationResult)"
proof (intro exI [of _ "grade (weighted_scheme ex) same (run src) (test_cases ex)"] conjI)
  show "validate cfg same content run exercise src =
          Inr (grade (weighted_scheme ex) same (run src) (test_cases ex))"
    using assms by (simp add: validate_def invalid_request_def)
  show "test_cases ex = [] \<longrightarrow>
          \<not> success_v (grade (weighted_scheme ex) same (run src) (test_cases ex))"
    by (simp add: grade_counts)
  show "total_tests (validate_fallback e :: 'v ExerciseValidationResult) = 0"
    and "\<not> success_v (validate_fallback e :: 'v ExerciseValidationResult)"
    and "total_tests (submit_fallback :: 'v ExerciseValidationResult) = 0"
    and "\<not> success_v (submit_fallback :: 'v ExerciseValidationResult)"
    by (simp_all add: validate_fallback_def submit_fallback_def)
qed (simp_all add: grade_counts)

text \<open>The specification's example, one test case expecting \<open>8\<close> and a candidate producing
  \<open>8\<close>; and an exercise without test cases.\<close>

theorem validate_counts_witness:
  "''x = 8'' \<noteq> [] \<and> length ''x = 8'' < max_code_length cfg0 \<and>
   library ''example'' = Some \<lparr>test_cases = [\<lparr>tc_name = ''t1'', tc_expected = 8\<rparr>],
                               weighted_scheme = None\<rparr> \<and>
   validate cfg0 (=) library solution ''example'' ''x = 8'' =
     Inr \<lparr>success_v = True, passed_tests = 1, total_tests = 1,
          test_results = [\<lparr>name = ''t1'', passed = True, expected = 8, actual = Some 8,
                           error_t = None\<rparr>],
          score = 100, feedback = ''All tests passed. Exercise complete.''\<rparr> \<and>
   library ''empty'' = Some \<lparr>test_cases = [], weighted_scheme = None\<rparr> \<and>
   validate cfg0 (=) library solution ''empty'' ''x = 8'' =
     Inr \<lparr>success_v = False, passed_tests = 0, total_tests = 0, test_results = [],
          score = 0, feedback = ''No tests configured for this exercise.''\<rparr>"
proof -
  have src: "''x = 8'' \<noteq> []" "length ''x = 8'' < max_code_length cfg0"
    by (simp_all add: cfg0_def)
  have ex: "library ''example'' = Some \<lparr>test_cases = [\<lparr>tc_name = ''t1'', tc_expected = 8\<rparr>],
                               weighted_scheme = None\<rparr>"
    and em: "library ''empty'' = Some \<lparr>test_cases = [], weighted_scheme = None\<rparr>"
    by (simp_all add: library_def)
  from validate_counts [where src = "''x = 8''" and cfg = cfg0 and content = library
      and exercise = "''example''" and same = "(=)" and run = solution
      and ex = "\<lparr>test_cases = [\<lparr>tc_name = ''t1'', tc_expected = 8\<rparr>], weighted_scheme = None\<rparr>",
      OF src ex]
  have one: "\<exists>r. validate cfg0 (=) library solution ''example'' ''x = 8'' = Inr r"
    by blast
  from validate_counts [where src = "''x = 8''" and cfg = cfg0 and content = library
      and exercise = "''empty''" and same = "(=)" and run = solution
      and ex = "\<lparr>test_cases = [], weighted_scheme = None\<rparr>", OF src em]
  have none: "\<exists>r. validate cfg0 (=) library solution ''empty'' ''x = 8'' = Inr r"
    by blast
  have "validate cfg0 (=) library solution ''example'' ''x = 8'' =
     Inr \<lparr>success_v = True, passed_tests = 1, total_tests = 1,
          test_results = [\<lparr>name = ''t1'', passed = True, expected = 8, actual = Some 8,
                           error_t = None\<rparr>],
          score = 100, feedback = ''All tests passed. Exercise complete.''\<rparr>"
    and "validate cfg0 (=) library solution ''empty'' ''x = 8'' =
     Inr \<lparr>success_v = False, passed_tests = 0, total_tests = 0, test_results = [],
          score = 0, feedback = ''No tests configured for this exercise.''\<rparr>"
    by (simp_all add: validate_def invalid_request_def cfg0_def library_def grade_def
        run_test_def score_of_def feedback_of_def solution_def Let_def)
  with src ex em show ?thesis
    using one none by simp
qed

lemma score_of_round:
  assumes "0 < n"
  shows "score_of None k n = round (100 * real k / real n)"
proof -
  have "100 * real k / real n + 1 / 2 = real (200 * k + n) / real (2 * n)"
    using assms by (simp add: field_simps)
  then have "round (100 * real k / real n) = \<lfloor>real (200 * k + n) / real (2 * n)\<rfloor>"
    by (simp add: round_def)
  also have "\<dots> = int ((200 * k + n) div (2 * n))"
    by (rule floor_divide_of_nat_eq)
  finally show ?thesis using assms by (simp add: score_of_def)
qed

lemma grade_score:
  "(scheme = None \<longrightarrow>
      score (grade scheme same cand tcs) =
        (if total_tests (grade scheme same cand tcs) = 0 then 0
         else round (100 * real (passed_tests (grade scheme same cand tcs)) /
                     real (total_tests (grade scheme same cand tcs))))) \<and>
   (total_tests (grade scheme same cand tcs) = 0 \<longrightarrow> score (grade scheme same cand tcs) = 0) \<and>
   (\<forall>w. scheme = Some w \<and> tcs \<noteq> [] \<longrightarrow>
      score (grade scheme same cand tcs) =
        w (passed_tests (grade scheme same cand tcs)) (total_tests (grade scheme same cand tcs)))"
proof (intro conjI impI allI)
  assume "scheme = None"
  then show "score (grade scheme same cand tcs) =
        (if total_tests (grade scheme same cand tcs) = 0 then 0
         else round (100 * real (passed_tests (grade scheme same cand tcs)) /
                     real (total_tests (grade scheme same cand tcs))))"
    by (simp add: grade_def Let_def score_of_round) (simp add: score_of_def)
next
  assume "total_tests (grade scheme same cand tcs) = 0"
  then show "score (grade scheme same cand tcs) = 0"
    by (simp add: grade_def Let_def score_of_def)
next
  fix w
  assume "scheme = Some w \<and> tcs \<noteq> []"
  then show "score (grade scheme same cand tcs) =
        w (passed_tests (grade scheme same cand tcs)) (total_tests (grade scheme same cand tcs))"
    by (simp add: grade_def Let_def score_of_def)
qed

text \<open>
  C2, as the service has it. For a valid request, the score of the validation result is an
  integer. Under the conventional scheme it is the quotient
  \<open>100 * passed_tests / total_tests\<close> rounded to the nearest integer when there are test
  cases; where the exercise defines a weighted scheme, it is the scheme's value for the two
  counts. Without test cases the score is \<open>0\<close> under every scheme, and so it is in the two
  results the client builds itself when the call fails.
\<close>

theorem validate_score:
  assumes "src \<noteq> []" and "length src < max_code_length cfg" and "content exercise = Some ex"
  shows "\<exists>r. validate cfg same content run exercise src = Inr r \<and>
     (weighted_scheme ex = None \<longrightarrow>
        score r = (if total_tests r = 0 then 0
                   else round (100 * real (passed_tests r) / real (total_tests r)))) \<and>
     (total_tests r = 0 \<longrightarrow> score r = 0) \<and>
     (\<forall>w. weighted_scheme ex = Some w \<and> test_cases ex \<noteq> [] \<longrightarrow>
        score r = w (passed_tests r) (total_tests r)) \<and>
     score (validate_fallback e :: 'v ExerciseValidationResult) = 0 \<and>
     score (submit_fallback :: 'v ExerciseValidationResult) = 0"
proof (intro exI [of _ "grade (weighted_scheme ex) same (run src) (test_cases ex)"] conjI)
  let ?r = "grade (weighted_scheme ex) same (run src) (test_cases ex)"
  note g = grade_score [of "weighted_scheme ex" same "run src" "test_cases ex"]
  show "validate cfg same content run exercise src = Inr ?r"
    using assms by (simp add: validate_def invalid_request_def)
  from g show "weighted_scheme ex = None \<longrightarrow>
      score ?r = (if total_tests ?r = 0 then 0
                  else round (100 * real (passed_tests ?r) / real (total_tests ?r)))"
    by (rule conjunct1)
  from g show "total_tests ?r = 0 \<longrightarrow> score ?r = 0"
    by (elim conjE)
  from g show "\<forall>w. weighted_scheme ex = Some w \<and> test_cases ex \<noteq> [] \<longrightarrow>
      score ?r = w (passed_tests ?r) (total_tests ?r)"
    by (elim conjE)
  show "score (validate_fallback e :: 'v ExerciseValidationResult) = 0"
    and "score (submit_fallback :: 'v ExerciseValidationResult) = 0"
    by (simp_all add: validate_fallback_def submit_fallback_def)
qed

text \<open>The specification's example (one test case, passed: score \<open>100\<close>), and a candidate
  that passes one of three test cases (score \<open>33\<close>).\<close>

theorem validate_score_witness:
  "''x = 8'' \<noteq> [] \<and> length ''x = 8'' < max_code_length cfg0 \<and>
   library ''example'' = Some \<lparr>test_cases = [\<lparr>tc_name = ''t1'', tc_expected = 8\<rparr>],
                               weighted_scheme = None\<rparr> \<and>
   validate cfg0 (=) library solution ''example'' ''x = 8'' =
     Inr (grade None (=) (solution ''x = 8'') [\<lparr>tc_name = ''t1'', tc_expected = 8\<rparr>]) \<and>
   score (grade None (=) (solution ''x = 8'') [\<lparr>tc_name = ''t1'', tc_expected = 8 :: int\<rparr>]) =
     100 \<and>
   library ''plain'' = Some \<lparr>test_cases = three_cases, weighted_scheme = None\<rparr> \<and>
   validate cfg0 (=) library (\<lambda>src tc. Inr 200) ''plain'' ''x = 8'' =
     Inr (grade None (=) (\<lambda>tc. Inr 200) three_cases) \<and>
   passed_tests (grade None (=) (\<lambda>tc. Inr 200) three_cases) = 1 \<and>
   total_tests (grade None (=) (\<lambda>tc. Inr 200) three_cases) = 3 \<and>
   score (grade None (=) (\<lambda>tc. Inr 200) three_cases) = 33 \<and>
   library ''empty'' = Some \<lparr>test_cases = [], weighted_scheme = None\<rparr> \<and>
   validate cfg0 (=) library solution ''empty'' ''x = 8'' = Inr (grade None (=) (solution ''x = 8'') []) \<and>
   total_tests (grade None (=) (solution ''x = 8'') ([] :: int TestCase list)) = 0 \<and>
   score (grade None (=) (solution ''x = 8'') ([] :: int TestCase list)) = 0"
proof -
  have src: "''x = 8'' \<noteq> []" "length ''x = 8'' < max_code_length cfg0"
    by (simp_all add: cfg0_def)
  have ex: "library ''example'' = Some \<lparr>test_cases = [\<lparr>tc_name = ''t1'', tc_expected = 8\<rparr>],
                               weighted_scheme = None\<rparr>"
    and pl: "library ''plain'' = Some \<lparr>test_cases = three_cases, weighted_scheme = None\<rparr>"
    and em: "library ''empty'' = Some \<lparr>test_cases = [], weighted_scheme = None\<rparr>"
    by (simp_all add: library_def)
  from validate_score [where src = "''x = 8''" and cfg = cfg0 and content = library
      and exercise = "''plain''" and same = "(=)" and run = "\<lambda>src tc. Inr 200"
      and ex = "\<lparr>test_cases = three_cases, weighted_scheme = None\<rparr>", OF src pl]
  have rounded: "\<exists>r. validate cfg0 (=) library (\<lambda>src tc. Inr 200) ''plain'' ''x = 8'' = Inr r"
    by blast
  have "validate cfg0 (=) library solution ''example'' ''x = 8'' =
     Inr (grade None (=) (solution ''x = 8'') [\<lparr>tc_name = ''t1'', tc_expected = 8\<rparr>])"
    and "score (grade None (=) (solution ''x = 8'') [\<lparr>tc_name = ''t1'', tc_expected = 8 :: int\<rparr>]) = 100"
    and "validate cfg0 (=) library (\<lambda>src tc. Inr 200) ''plain'' ''x = 8'' =
     Inr (grade None (=) (\<lambda>tc. Inr 200) three_cases)"
    and "passed_tests (grade None (=) (\<lambda>tc. Inr 200) three_cases) = 1"
    and "total_tests (grade None (=) (\<lambda>tc. Inr 200) three_cases) = 3"
    and "score (grade None (=) (\<lambda>tc. Inr 200) three_cases) = 33"
    and "validate cfg0 (=) library solution ''empty'' ''x = 8'' =
     Inr (grade None (=) (solution ''x = 8'') [])"
    and "total_tests (grade None (=) (solution ''x = 8'') ([] :: int TestCase list)) = 0"
    and "score (grade None (=) (solution ''x = 8'') ([] :: int TestCase list)) = 0"
    by (simp_all add: validate_def invalid_request_def cfg0_def library_def grade_def
        run_test_def score_of_def solution_def three_cases_def Let_def)
  with src ex pl em show ?thesis
    using rounded by simp
qed

text \<open>The claim as stated fails where the exercise defines a weighted scheme. On the
  scale of the exercise page, for an exercise worth 10 points, three test cases out of
  three passed score \<open>10\<close>, while \<open>round (100 * 3 / 3) = 100\<close>.\<close>

theorem validate_score_counterexample:
  "validate cfg0 (=) library solution ''exercise-1'' ''x = 8'' =
     Inr (grade (Some (points_scale 10)) (=) (solution ''x = 8'') three_cases) \<and>
   passed_tests (grade (Some (points_scale 10)) (=) (solution ''x = 8'') three_cases) = 3 \<and>
   total_tests (grade (Some (points_scale 10)) (=) (solution ''x = 8'') three_cases) = 3 \<and>
   score (grade (Some (points_scale 10)) (=) (solution ''x = 8'') three_cases) = 10 \<and>
   round (100 * real 3 / real 3) = (100 :: int)"
  by (simp add: validate_def invalid_request_def cfg0_def library_def grade_def run_test_def
      score_of_def points_scale_def solution_def three_cases_def Let_def)

section \<open>The driver's timeout\<close>

lemma watch_timeout:
  "(\<forall>i \<le> k. \<exists>m \<le> L. p (t + i) = Running m) \<Longrightarrow> watch T L p t k = timed_out T"
proof (induction k arbitrary: t)
  case 0
  then obtain m where "m \<le> L" "p t = Running m" by auto
  then show ?case by (simp add: finished_def)
next
  case (Suc k)
  from Suc.prems obtain m where m: "m \<le> L" "p t = Running m" by force
  have "\<forall>i \<le> k. \<exists>m \<le> L. p (Suc t + i) = Running m"
  proof (intro allI impI)
    fix i assume "i \<le> k"
    then have "Suc i \<le> Suc k" by simp
    with Suc.prems obtain m where "m \<le> L" "p (t + Suc i) = Running m" by blast
    then show "\<exists>m \<le> L. p (Suc t + i) = Running m" by auto
  qed
  then have "watch T L p (Suc t) k = timed_out T" by (rule Suc.IH)
  with m show ?case by (simp add: finished_def)
qed

text \<open>
  C8. When the code of a valid request runs longer than the configured timeout (its
  process, started at the first attempt or at the retry after a sandbox fault, is still
  running within its memory limit at every tick up to the timeout), \<open>execute\<close> returns a
  result with \<open>success = false\<close>, the timeout marker as its error, and an execution time
  equal to the timeout itself.
\<close>

theorem timeout_reported:
  assumes "src \<noteq> []" and "length src < max_code_length cfg"
    and "sandbox src 0 = Some p \<or> sandbox src 0 = None \<and> sandbox src 1 = Some p"
    and "\<forall>t \<le> timeout cfg. \<exists>m \<le> memory_limit cfg. p t = Running m"
  shows "execute cfg sandbox src = Inr (timed_out (timeout cfg)) \<and>
         \<not> success (timed_out (timeout cfg)) \<and>
         error (timed_out (timeout cfg)) = Some timeout_marker \<and>
         execution_time (timed_out (timeout cfg)) = seconds (timeout cfg)"
proof -
  have "run_driver (timeout cfg) (memory_limit cfg) p = timed_out (timeout cfg)"
    unfolding run_driver_def using assms(4) by (intro watch_timeout) simp
  with assms(1-3) show ?thesis by (auto simp: execute_def invalid_request_def timed_out_def)
qed

text \<open>The specification's example: \<^verbatim>\<open>while True: pass\<close> under a timeout of two seconds.\<close>

theorem timeout_reported_witness:
  "execute cfg0
     (\<lambda>src i. Some (\<lambda>t. Running 8)) ''while True: pass'' =
   Inr \<lparr>success = False, output_text = [], error = Some timeout_marker,
        execution_time = 2, memory_usage = None\<rparr>"
  using timeout_reported [of "''while True: pass''"
      "cfg0"
      "\<lambda>src i. Some (\<lambda>t. Running 8)" "\<lambda>t. Running 8"]
  by (simp add: seconds_def timed_out_def cfg0_def)

section \<open>The invariant of execution results\<close>

lemma finished_well_formed: "finished L t s = Some r \<Longrightarrow> well_formed r"
  by (auto simp: finished_def well_formed_def split: proc_state.splits if_splits)

lemma timed_out_well_formed: "well_formed (timed_out T)"
  by (simp add: well_formed_def timed_out_def)

lemma watch_well_formed: "well_formed (watch T L p t k)"
  by (induction k arbitrary: t)
     (auto simp: finished_well_formed timed_out_well_formed split: option.splits)

lemma watch_finished: "finished L t (p t) = Some r \<Longrightarrow> watch T L p t k = r"
  by (cases k) simp_all

lemma execute_well_formed: "execute cfg sandbox src = Inr r \<Longrightarrow> well_formed r"
  by (auto simp: execute_def run_driver_def watch_well_formed split: if_splits option.splits)

lemma fallback_well_formed: "well_formed (execute_fallback e)"
  by (simp add: well_formed_def execute_fallback_def)

lemma executeCode_result:
  "executionResult (final (executeCode api cb lang st)) =
     (case api (code st) lang of
        None \<Rightarrow> None
      | Some out \<Rightarrow>
          Some (case out of
                  Inl e \<Rightarrow> execute_fallback e
                | Inr r \<Rightarrow> (case call_opt cb r of None \<Rightarrow> r | Some e \<Rightarrow> execute_fallback e)))"
  by (simp add: executeCode_def Let_def split: sum.splits option.splits)

lemma executeCode_flag:
  "isExecuting (final (executeCode api cb lang st)) = (api (code st) lang = None)"
  by (simp add: executeCode_def Let_def split: sum.splits option.splits)

lemma executeCode_ended:
  "(ended (executeCode api cb lang st) = Pending) = (api (code st) lang = None)"
  by (simp add: executeCode_def Let_def split: sum.splits option.splits)

lemma executeCode_calls: "calls (executeCode api cb lang st) = [ExecuteCall (code st) lang]"
  by (simp add: executeCode_def Let_def split: sum.splits option.splits)

text \<open>
  C4. Every run attempt made through the editor against the service leaves an execution
  result, and for that result exactly one of the two holds: \<open>success = true\<close> with no error
  recorded, or \<open>success = false\<close> with an error recorded (the captured fault, the timeout
  or memory marker, or the message of the failed call). A result with \<open>success = false\<close>
  and no error does not occur.
\<close>

theorem execution_result_invariant:
  "\<exists>r. executionResult
         (final (executeCode (executeCode_api net signal cfg sandbox) cb lang st)) = Some r \<and>
       (success r \<and> error r = None \<or> \<not> success r \<and> error r \<noteq> None)"
proof -
  let ?api = "executeCode_api net signal cfg sandbox"
  obtain out where s: "?api (code st) lang = Some out"
    by (simp add: executeCode_api_def)
  have api: "well_formed r" if "out = Inr r" for r
    using that s execute_well_formed [of cfg sandbox "code st" r]
    by (auto simp: executeCode_api_def split: option.splits sum.splits)
  have "well_formed (case out of
             Inl e \<Rightarrow> execute_fallback e
           | Inr r \<Rightarrow> (case call_opt cb r of None \<Rightarrow> r | Some e \<Rightarrow> execute_fallback e))"
    by (auto simp: api fallback_well_formed split: sum.splits option.splits)
  then show ?thesis
    unfolding executeCode_result s by (auto simp: well_formed_def)
qed

text \<open>A program that raises after printing, a program that prints and exits, and a call
  that fails on the network.\<close>

theorem execution_result_invariant_witness:
  "executionResult (final (executeCode
      (executeCode_api None (\<lambda>err. OtherThrown)
         cfg0
         (\<lambda>src i. Some (\<lambda>t. Faulted ''partial'' ''ZeroDivisionError'')))
      None ''python'' (initial_state ''print(1/0)'' :: unit CodeEditorState))) =
     Some \<lparr>success = False, output_text = ''partial'',
           error = Some ''ZeroDivisionError'', execution_time = 0,
           memory_usage = None\<rparr> \<and>
   executionResult (final (executeCode
      (executeCode_api None (\<lambda>err. OtherThrown)
         cfg0
         (\<lambda>src i. Some (\<lambda>t. Exited ''Hello, World!'')))
      None ''python'' (initial_state ''print(1)'' :: unit CodeEditorState))) =
     Some \<lparr>success = True, output_text = ''Hello, World!'', error = None, execution_time = 0,
           memory_usage = None\<rparr> \<and>
   executionResult (final (executeCode
      (executeCode_api (Some (ErrorObj ''Network Error'')) (\<lambda>err. OtherThrown)
         cfg0
         (\<lambda>src i. None))
      None ''python'' (initial_state ''print(1)'' :: unit CodeEditorState))) =
     Some \<lparr>success = False, output_text = [], error = Some ''Network Error'',
           execution_time = 0, memory_usage = None\<rparr>"
  using execution_result_invariant [of None "\<lambda>err. OtherThrown"
      "cfg0"
      "\<lambda>src i. Some (\<lambda>t. Faulted ''partial'' ''ZeroDivisionError'')" None "''python''"
      "initial_state ''print(1/0)'' :: unit CodeEditorState"]
  by (simp add: executeCode_result executeCode_api_def execute_def invalid_request_def
      cfg0_def run_driver_def
      watch_finished finished_def call_opt_def initial_state_def execute_fallback_def
      seconds_def)

section \<open>Every attempt leaves a result\<close>

lemma validateExercise_result:
  "eid \<noteq> [] \<Longrightarrow>
   validationResult (final (validateExercise api cb (Some eid) st)) =
     (case api eid (code st) of
        None \<Rightarrow> None
      | Some out \<Rightarrow>
          Some (case out of
                  Inl e \<Rightarrow> validate_fallback e
                | Inr r \<Rightarrow> (case call_opt cb r of None \<Rightarrow> r | Some e \<Rightarrow> validate_fallback e)))"
  by (simp add: validateExercise_def Let_def split: sum.splits option.splits)

lemma validateExercise_flag:
  "eid \<noteq> [] \<Longrightarrow>
   isValidating (final (validateExercise api cb (Some eid) st)) = (api eid (code st) = None)"
  by (simp add: validateExercise_def Let_def split: sum.splits option.splits)

lemma validateExercise_ended:
  "eid \<noteq> [] \<Longrightarrow>
   (ended (validateExercise api cb (Some eid) st) = Pending) = (api eid (code st) = None)"
  by (simp add: validateExercise_def Let_def split: sum.splits option.splits)

lemma validateExercise_calls:
  "eid \<noteq> [] \<Longrightarrow> calls (validateExercise api cb (Some eid) st) = [ValidateCall eid (code st)]"
  by (simp add: validateExercise_def Let_def split: sum.splits option.splits)

lemma validateExercise_no_id:
  "validateExercise api cb None st = \<lparr>final = st, calls = [], notified = [], ended = Returned\<rparr>"
  "validateExercise api cb (Some []) st =
     \<lparr>final = st, calls = [], notified = [], ended = Returned\<rparr>"
  by (simp_all add: validateExercise_def)

lemma handleSubmit_rejected:
  "user \<noteq> None \<Longrightarrow> trim (code_d st) \<noteq> [] \<Longrightarrow>
   api (exercise_id ex) (code_d st) = Some (Inl e) \<Longrightarrow>
   handleSubmit api sub cb user ex st =
     \<lparr>final = st\<lparr>isSubmitting := False, attempts := attempts st + 1,
                  validationResult_d := Some submit_fallback\<rparr>,
      calls = [ValidateCall (exercise_id ex) (code_d st)], notified = [], ended = Returned\<rparr>"
  by (simp add: handleSubmit_def Let_def)

lemma handleSubmit_failed:
  "user \<noteq> None \<Longrightarrow> trim (code_d st) \<noteq> [] \<Longrightarrow>
   api (exercise_id ex) (code_d st) = Some (Inr r) \<Longrightarrow> \<not> success_v r \<Longrightarrow>
   handleSubmit api sub cb user ex st =
     \<lparr>final = st\<lparr>isSubmitting := False, attempts := attempts st + 1,
                  validationResult_d := Some r\<rparr>,
      calls = [ValidateCall (exercise_id ex) (code_d st)], notified = [], ended = Returned\<rparr>"
  by (simp add: handleSubmit_def Let_def)

lemma handleSubmit_passed:
  "user \<noteq> None \<Longrightarrow> trim (code_d st) \<noteq> [] \<Longrightarrow>
   api (exercise_id ex) (code_d st) = Some (Inr r) \<Longrightarrow> success_v r \<Longrightarrow>
   sub (exercise_id ex) (code_d st) = Some sres \<Longrightarrow>
   isSubmitting (final (handleSubmit api sub cb user ex st)) = False \<and>
   validationResult_d (final (handleSubmit api sub cb user ex st)) =
     Some (case sres of
             Inl e \<Rightarrow> submit_fallback
           | Inr u \<Rightarrow> (case call_opt cb r of None \<Rightarrow> r | Some e \<Rightarrow> submit_fallback)) \<and>
   calls (handleSubmit api sub cb user ex st) =
     [ValidateCall (exercise_id ex) (code_d st), SubmitCall (exercise_id ex) (code_d st)] \<and>
   ended (handleSubmit api sub cb user ex st) = Returned"
  by (simp add: handleSubmit_def Let_def split: sum.splits option.splits)

lemma handleSubmit_signed_out:
  "handleSubmit api sub cb None ex st =
     \<lparr>final = st, calls = [], notified = [], ended = Returned\<rparr>"
  by (simp add: handleSubmit_def)


text \<open>
  C3, as the code has it. An attempt is a run of a handler that passes the handler's guard:
  a run of the editor's execute handler, a run of its validate handler with an exercise
  id, a submission of the exercise page by a signed-in user with code that is not blank.
  Every attempt whose API calls settle leaves a result in the state and clears its
  in-progress flag, whatever the API calls answer and whatever the callbacks do. When
  the API call throws, the result is built by the client: for execute, \<open>success = false\<close>
  with the error set to the thrown error's message (or to "Unknown error occurred"); for
  the editor's validate, \<open>success = false\<close>, \<open>passed_tests = 0\<close>, \<open>total_tests = 0\<close>,
  \<open>score = 0\<close> and the thrown error's message (or "Validation failed") as feedback; for the
  page's submit, the same with a fixed feedback message. A run that the guard stops (a
  validate without exercise id, a submit without a signed-in user) returns at once: the
  state is unchanged, no call is issued and no result is produced.
\<close>

theorem attempt_yields_result:
  "(api (code st) lang = Some out \<longrightarrow>
      isExecuting (final (executeCode api cb lang st)) = False \<and>
      executionResult (final (executeCode api cb lang st)) \<noteq> None \<and>
      ended (executeCode api cb lang st) \<noteq> Pending) \<and>
   (api (code st) lang = Some (Inl e) \<longrightarrow>
      executionResult (final (executeCode api cb lang st)) =
        Some \<lparr>success = False, output_text = [],
              error = Some (error_text ''Unknown error occurred'' e),
              execution_time = 0, memory_usage = None\<rparr>) \<and>
   (eid \<noteq> [] \<and> vapi eid (code st) = Some vout \<longrightarrow>
      isValidating (final (validateExercise vapi vcb (Some eid) st)) = False \<and>
      validationResult (final (validateExercise vapi vcb (Some eid) st)) \<noteq> None \<and>
      ended (validateExercise vapi vcb (Some eid) st) \<noteq> Pending) \<and>
   (eid \<noteq> [] \<and> vapi eid (code st) = Some (Inl e) \<longrightarrow>
      validationResult (final (validateExercise vapi vcb (Some eid) st)) =
        Some \<lparr>success_v = False, passed_tests = 0, total_tests = 0, test_results = [],
              score = 0, feedback = error_text ''Validation failed'' e\<rparr>) \<and>
   (user \<noteq> None \<and> trim (code_d d) \<noteq> [] \<and> vapi (exercise_id ex) (code_d d) = Some (Inl e) \<longrightarrow>
      isSubmitting (final (handleSubmit vapi sub ccb user ex d)) = False \<and>
      validationResult_d (final (handleSubmit vapi sub ccb user ex d)) =
        Some \<lparr>success_v = False, passed_tests = 0, total_tests = 0, test_results = [],
              score = 0, feedback = ''Failed to validate exercise. Please try again.''\<rparr> \<and>
      ended (handleSubmit vapi sub ccb user ex d) = Returned) \<and>
   (user \<noteq> None \<and> trim (code_d d) \<noteq> [] \<and> vapi (exercise_id ex) (code_d d) = Some (Inr r) \<and>
    \<not> success_v r \<longrightarrow>
      isSubmitting (final (handleSubmit vapi sub ccb user ex d)) = False \<and>
      validationResult_d (final (handleSubmit vapi sub ccb user ex d)) = Some r \<and>
      ended (handleSubmit vapi sub ccb user ex d) = Returned) \<and>
   (user \<noteq> None \<and> trim (code_d d) \<noteq> [] \<and> vapi (exercise_id ex) (code_d d) = Some (Inr r) \<and>
    success_v r \<and> sub (exercise_id ex) (code_d d) = Some sres \<longrightarrow>
      isSubmitting (final (handleSubmit vapi sub ccb user ex d)) = False \<and>
      validationResult_d (final (handleSubmit vapi sub ccb user ex d)) \<noteq> None \<and>
      ended (handleSubmit vapi sub ccb user ex d) = Returned) \<and>
   validateExercise vapi vcb None st =
     \<lparr>final = st, calls = [], notified = [], ended = Returned\<rparr> \<and>
   validateExercise vapi vcb (Some []) st =
     \<lparr>final = st, calls = [], notified = [], ended = Returned\<rparr> \<and>
   handleSubmit vapi sub ccb (None :: 'u option) ex d =
     \<lparr>final = d, calls = [], notified = [], ended = Returned\<rparr>"
proof (intro conjI impI)
  assume a: "api (code st) lang = Some out"
  then show "isExecuting (final (executeCode api cb lang st)) = False"
    by (simp add: executeCode_flag)
  from a show "executionResult (final (executeCode api cb lang st)) \<noteq> None"
    by (simp add: executeCode_result)
  from a show "ended (executeCode api cb lang st) \<noteq> Pending"
    by (simp add: executeCode_ended)
next
  assume "api (code st) lang = Some (Inl e)"
  then show "executionResult (final (executeCode api cb lang st)) =
        Some \<lparr>success = False, output_text = [],
              error = Some (error_text ''Unknown error occurred'' e),
              execution_time = 0, memory_usage = None\<rparr>"
    by (simp add: executeCode_result execute_fallback_def)
next
  assume a: "eid \<noteq> [] \<and> vapi eid (code st) = Some vout"
  then show "isValidating (final (validateExercise vapi vcb (Some eid) st)) = False"
    by (simp add: validateExercise_flag)
  from a show "validationResult (final (validateExercise vapi vcb (Some eid) st)) \<noteq> None"
    by (simp add: validateExercise_result)
  from a show "ended (validateExercise vapi vcb (Some eid) st) \<noteq> Pending"
    by (simp add: validateExercise_ended)
next
  assume "eid \<noteq> [] \<and> vapi eid (code st) = Some (Inl e)"
  then show "validationResult (final (validateExercise vapi vcb (Some eid) st)) =
        Some \<lparr>success_v = False, passed_tests = 0, total_tests = 0, test_results = [],
              score = 0, feedback = error_text ''Validation failed'' e\<rparr>"
    by (simp add: validateExercise_result validate_fallback_def)
next
  assume "user \<noteq> None \<and> trim (code_d d) \<noteq> [] \<and> vapi (exercise_id ex) (code_d d) = Some (Inl e)"
  then have h: "handleSubmit vapi sub ccb user ex d =
     \<lparr>final = d\<lparr>isSubmitting := False, attempts := attempts d + 1,
                  validationResult_d := Some submit_fallback\<rparr>,
      calls = [ValidateCall (exercise_id ex) (code_d d)], notified = [], ended = Returned\<rparr>"
    by (simp add: handleSubmit_rejected)
  show "isSubmitting (final (handleSubmit vapi sub ccb user ex d)) = False"
    and "validationResult_d (final (handleSubmit vapi sub ccb user ex d)) =
        Some \<lparr>success_v = False, passed_tests = 0, total_tests = 0, test_results = [],
              score = 0, feedback = ''Failed to validate exercise. Please try again.''\<rparr>"
    and "ended (handleSubmit vapi sub ccb user ex d) = Returned"
    by (simp_all add: h submit_fallback_def)
next
  assume "user \<noteq> None \<and> trim (code_d d) \<noteq> [] \<and> vapi (exercise_id ex) (code_d d) = Some (Inr r) \<and>
    \<not> success_v r"
  then have h: "handleSubmit vapi sub ccb user ex d =
     \<lparr>final = d\<lparr>isSubmitting := False, attempts := attempts d + 1,
                  validationResult_d := Some r\<rparr>,
      calls = [ValidateCall (exercise_id ex) (code_d d)], notified = [], ended = Returned\<rparr>"
    by (simp add: handleSubmit_failed)
  show "isSubmitting (final (handleSubmit vapi sub ccb user ex d)) = False"
    and "validationResult_d (final (handleSubmit vapi sub ccb user ex d)) = Some r"
    and "ended (handleSubmit vapi sub ccb user ex d) = Returned"
    by (simp_all add: h)
next
  assume "user \<noteq> None \<and> trim (code_d d) \<noteq> [] \<and> vapi (exercise_id ex) (code_d d) = Some (Inr r) \<and>
    success_v r \<and> sub (exercise_id ex) (code_d d) = Some sres"
  then have h: "isSubmitting (final (handleSubmit vapi sub ccb user ex d)) = False \<and>
   validationResult_d (final (handleSubmit vapi sub ccb user ex d)) =
     Some (case sres of
             Inl e \<Rightarrow> submit_fallback
           | Inr u \<Rightarrow> (case call_opt ccb r of None \<Rightarrow> r | Some e \<Rightarrow> submit_fallback)) \<and>
   calls (handleSubmit vapi sub ccb user ex d) =
     [ValidateCall (exercise_id ex) (code_d d), SubmitCall (exercise_id ex) (code_d d)] \<and>
   ended (handleSubmit vapi sub ccb user ex d) = Returned"
    by (simp add: handleSubmit_passed)
  show "isSubmitting (final (handleSubmit vapi sub ccb user ex d)) = False"
    and "validationResult_d (final (handleSubmit vapi sub ccb user ex d)) \<noteq> None"
    and "ended (handleSubmit vapi sub ccb user ex d) = Returned"
    using h by simp_all
next
  show "validateExercise vapi vcb None st =
     \<lparr>final = st, calls = [], notified = [], ended = Returned\<rparr>"
    and "validateExercise vapi vcb (Some []) st =
     \<lparr>final = st, calls = [], notified = [], ended = Returned\<rparr>"
    by (simp_all add: validateExercise_no_id)
next
  show "handleSubmit vapi sub ccb (None :: 'u option) ex d =
     \<lparr>final = d, calls = [], notified = [], ended = Returned\<rparr>"
    by (simp add: handleSubmit_signed_out)
qed

text \<open>A failed network call on each of the three handlers, a submission that fails a test,
  and a submission that passes.\<close>

theorem attempt_yields_result_witness:
  "''exercise-1'' \<noteq> [] \<and> Some ''user-1'' \<noteq> None \<and> trim ''x = 1'' \<noteq> [] \<and>
   executeCode api_offline None ''python'' (initial_state ''x = 1'' :: unit CodeEditorState) =
     \<lparr>final = \<lparr>code = ''x = 1'', isExecuting = False, isValidating = False,
        executionResult = Some \<lparr>success = False, output_text = [],
          error = Some ''Network Error'', execution_time = 0, memory_usage = None\<rparr>,
        validationResult = None, showHints = False, hints = []\<rparr>,
      calls = [ExecuteCall ''x = 1'' ''python''], notified = [], ended = Returned\<rparr> \<and>
   validateExercise api_offline None (Some ''exercise-1'')
       (initial_state ''x = 1'' :: unit CodeEditorState) =
     \<lparr>final = \<lparr>code = ''x = 1'', isExecuting = False, isValidating = False,
        executionResult = None,
        validationResult = Some \<lparr>success_v = False, passed_tests = 0, total_tests = 0,
          test_results = [], score = 0, feedback = ''Network Error''\<rparr>,
        showHints = False, hints = []\<rparr>,
      calls = [ValidateCall ''exercise-1'' ''x = 1''], notified = [], ended = Returned\<rparr> \<and>
   handleSubmit api_offline api_ok_submit None (Some ''user-1'') exercise1
       (display_initial exercise1 0 :: unit ExerciseDisplayState) =
     \<lparr>final = \<lparr>code_d = ''x = 1'', isSubmitting = False,
        validationResult_d = Some \<lparr>success_v = False, passed_tests = 0, total_tests = 0,
          test_results = [], score = 0,
          feedback = ''Failed to validate exercise. Please try again.''\<rparr>,
        showHints_d = False, attempts = 1, startTime = 0, timeSpent = 0\<rparr>,
      calls = [ValidateCall ''exercise-1'' ''x = 1''], notified = [], ended = Returned\<rparr> \<and>
   final (handleSubmit api_failing api_ok_submit None (Some ''user-1'') exercise1
       (display_initial exercise1 0 :: unit ExerciseDisplayState)) =
     \<lparr>code_d = ''x = 1'', isSubmitting = False,
      validationResult_d = Some \<lparr>success_v = False, passed_tests = 0, total_tests = 1,
        test_results = [\<lparr>name = ''t1'', passed = False, expected = (), actual = None,
                         error_t = Some ''NameError''\<rparr>],
        score = 0, feedback = ''0 of 1 tests passed''\<rparr>,
      showHints_d = False, attempts = 1, startTime = 0, timeSpent = 0\<rparr> \<and>
   handleSubmit api_passing api_ok_submit None (Some ''user-1'') exercise1
       (display_initial exercise1 0 :: unit ExerciseDisplayState) =
     \<lparr>final = \<lparr>code_d = ''x = 1'', isSubmitting = False,
        validationResult_d = Some \<lparr>success_v = True, passed_tests = 1, total_tests = 1,
          test_results = [\<lparr>name = ''t1'', passed = True, expected = (), actual = Some (),
                           error_t = None\<rparr>],
          score = 100, feedback = ''All tests passed''\<rparr>,
        showHints_d = False, attempts = 1, startTime = 0, timeSpent = 0\<rparr>,
      calls = [ValidateCall ''exercise-1'' ''x = 1'', SubmitCall ''exercise-1'' ''x = 1''],
      notified = [], ended = Returned\<rparr>"
  using attempt_yields_result [where api = api_offline and lang = "''python''" and cb = None
      and st = "initial_state ''x = 1'' :: unit CodeEditorState"
      and out = "Inl (ErrorObj ''Network Error'')" and e = "ErrorObj ''Network Error''"
      and eid = "''exercise-1''" and vapi = api_offline
      and vout = "Inl (ErrorObj ''Network Error'')" and vcb = None
      and user = "Some ''user-1''" and ex = exercise1
      and d = "display_initial exercise1 0 :: unit ExerciseDisplayState"
      and sub = api_ok_submit and ccb = None]
    attempt_yields_result [where vapi = api_failing and user = "Some ''user-1''"
      and ex = exercise1 and d = "display_initial exercise1 0 :: unit ExerciseDisplayState"
      and sub = api_ok_submit and ccb = None
      and r = "\<lparr>success_v = False, passed_tests = 0, total_tests = 1,
                test_results = [\<lparr>name = ''t1'', passed = False, expected = (), actual = None,
                                 error_t = Some ''NameError''\<rparr>],
                score = 0, feedback = ''0 of 1 tests passed''\<rparr>"]
    attempt_yields_result [where vapi = api_passing and user = "Some ''user-1''"
      and ex = exercise1 and d = "display_initial exercise1 0 :: unit ExerciseDisplayState"
      and sub = api_ok_submit and ccb = None and sres = "Inr ()"
      and r = "\<lparr>success_v = True, passed_tests = 1, total_tests = 1,
                test_results = [\<lparr>name = ''t1'', passed = True, expected = (), actual = Some (),
                                 error_t = None\<rparr>],
                score = 100, feedback = ''All tests passed''\<rparr>"]
  by (simp add: api_offline_def api_failing_def api_passing_def api_ok_submit_def
      initial_state_def display_initial_def exercise1_def
      or_empty_def trim_def is_space_def handleSubmit_def executeCode_def validateExercise_def
      execute_fallback_def validate_fallback_def call_opt_def Let_def submit_fallback_def)

text \<open>
  The claim as stated fails where the guard of the submit handler stops a run that the
  page has offered: for a user who is not signed in the submit button is enabled (its
  \<^verbatim>\<open>disabled\<close> attribute looks at the code and the submitting flag only), and the click is
  dropped without a result. It also fails for an attempt whose API call never settles:
  the handler stays at its \<^verbatim>\<open>await\<close> with the flag set and no result.
\<close>

theorem attempt_dropped:
  "\<not> submit_disabled (display_initial exercise1 0 :: unit ExerciseDisplayState) \<and>
   handleSubmit api_offline api_offline_submit None (None :: string option) exercise1
       (display_initial exercise1 0 :: unit ExerciseDisplayState) =
     \<lparr>final = display_initial exercise1 0, calls = [], notified = [], ended = Returned\<rparr> \<and>
   validationResult_d (display_initial exercise1 0 :: unit ExerciseDisplayState) = None \<and>
   executeCode api_pending None ''python'' (initial_state ''x = 1'' :: unit CodeEditorState) =
     \<lparr>final = \<lparr>code = ''x = 1'', isExecuting = True, isValidating = False,
        executionResult = None, validationResult = None, showHints = False, hints = []\<rparr>,
      calls = [ExecuteCall ''x = 1'' ''python''], notified = [], ended = Pending\<rparr>"
  by (simp add: submit_disabled_def display_initial_def exercise1_def or_empty_def trim_def
      is_space_def handleSubmit_def executeCode_def api_pending_def initial_state_def Let_def)

section \<open>Blank code\<close>






section \<open>The response interceptor's retry\<close>

lemma interceptor_url [simp]: "url (request_interceptor c config) = url config"
  by (simp add: request_interceptor_def split: option.splits)

lemma interceptor_retry [simp]: "retry (request_interceptor c config) = retry config"
  by (simp add: request_interceptor_def split: option.splits)

lemma sent_clearTokens [simp]: "sent (clearTokens c) = sent c"
  by (simp add: clearTokens_def)

lemma sent_saveTokens [simp]: "sent (saveTokensToStorage t c) = sent c"
  by (simp add: saveTokensToStorage_def)

lemma post_url [simp]: "url (post u b) = u"
  by (simp add: post_def)

text \<open>The four ways a settled call of the client can have gone, and the three ways of
  \<^verbatim>\<open>refreshToken\<close>.\<close>

lemma dispatch_cases:
  assumes "dispatch (Suc n) srv c config = Some (c', out)"
  obtains
    (resolved) d where "srv (length (sent c)) (request_interceptor c config) = Success d"
      "c' = c\<lparr>sent := sent c @ [request_interceptor c config]\<rparr>" "out = Inr d"
  | (rejected) s where "srv (length (sent c)) (request_interceptor c config) = Failure s"
      "s \<noteq> Some 401 \<or> retry config"
      "c' = c\<lparr>sent := sent c @ [request_interceptor c config]\<rparr>"
      "out = Inl (AxiosError s (request_interceptor c config))"
  | (refresh_failed) c2 e where
      "srv (length (sent c)) (request_interceptor c config) = Failure (Some 401)"
      "\<not> retry config"
      "refreshToken n srv (c\<lparr>sent := sent c @ [request_interceptor c config]\<rparr>) = Some (c2, Inl e)"
      "c' = (clearTokens c2)\<lparr>location := ''/login''\<rparr>" "out = Inl e"
  | (retried) c2 t where
      "srv (length (sent c)) (request_interceptor c config) = Failure (Some 401)"
      "\<not> retry config"
      "refreshToken n srv (c\<lparr>sent := sent c @ [request_interceptor c config]\<rparr>) = Some (c2, Inr t)"
      "dispatch n srv c2 ((request_interceptor c config)\<lparr>retry := True\<rparr>) = Some (c', out)"
  using assms
  by (auto simp: Let_def split: response.splits if_splits option.splits sum.splits prod.splits)

lemma refreshToken_cases:
  assumes "refreshToken n srv c = Some (c', out)"
  obtains
    (no_token) "tokens c = None \<or> (\<exists>t. tokens c = Some t \<and> refresh_token t = [])"
      "c' = c" "out = Inl NoRefreshToken"
  | (failed) t e where "tokens c = Some t" "refresh_token t \<noteq> []"
      "dispatch n srv c (post refresh_url (refresh_token t)) = Some (c', Inl e)" "out = Inl e"
  | (refreshed) t c1 d where "tokens c = Some t" "refresh_token t \<noteq> []"
      "dispatch n srv c (post refresh_url (refresh_token t)) = Some (c1, Inr d)"
      "c' = saveTokensToStorage (as_tokens d) c1" "out = Inr (as_tokens d)"
  using assms
  by (auto split: option.splits if_splits sum.splits prod.splits)

declare refreshToken.simps [simp del]

lemma traffic_refresh:
  assumes d: "\<forall>c config c' out. dispatch n srv c config = Some (c', out) \<longrightarrow>
        (\<exists>rest. sent c' = sent c @ request_interceptor c config # rest \<and>
           (\<forall>r \<in> set rest. url r = refresh_url \<or> url r = url config \<and> retry r) \<and>
           length (filter (\<lambda>r. url r \<noteq> refresh_url) rest) \<le> (if retry config then 0 else 1))"
    and r: "refreshToken n srv c = Some (c', out)"
  shows "\<exists>new. sent c' = sent c @ new \<and> (\<forall>r \<in> set new. url r = refresh_url)"
  using r
proof (cases rule: refreshToken_cases)
  case no_token
  then show ?thesis by simp
next
  case (failed t e)
  from d failed(3) obtain rest where
    "sent c' = sent c @ request_interceptor c (post refresh_url (refresh_token t)) # rest"
    "\<forall>r \<in> set rest. url r = refresh_url \<or> url r = url (post refresh_url (refresh_token t)) \<and> retry r"
    by blast
  then show ?thesis
    by (intro exI[of _ "request_interceptor c (post refresh_url (refresh_token t)) # rest"]) auto
next
  case (refreshed t c1 d')
  from d refreshed(3) obtain rest where
    "sent c1 = sent c @ request_interceptor c (post refresh_url (refresh_token t)) # rest"
    "\<forall>r \<in> set rest. url r = refresh_url \<or> url r = url (post refresh_url (refresh_token t)) \<and> retry r"
    by blast
  with refreshed(4) show ?thesis
    by (intro exI[of _ "request_interceptor c (post refresh_url (refresh_token t)) # rest"]) auto
qed

lemma traffic_all: "traffic n srv"
proof (induction n)
  case 0
  have "\<forall>c config c' out. dispatch 0 srv c config = Some (c', out) \<longrightarrow>
        (\<exists>rest. sent c' = sent c @ request_interceptor c config # rest \<and>
           (\<forall>r \<in> set rest. url r = refresh_url \<or> url r = url config \<and> retry r) \<and>
           length (filter (\<lambda>r. url r \<noteq> refresh_url) rest) \<le> (if retry config then 0 else 1))"
    by simp
  then show ?case unfolding traffic_def using traffic_refresh by blast
next
  case (Suc n)
  have d: "\<exists>rest. sent c' = sent c @ request_interceptor c config # rest \<and>
           (\<forall>r \<in> set rest. url r = refresh_url \<or> url r = url config \<and> retry r) \<and>
           length (filter (\<lambda>r. url r \<noteq> refresh_url) rest) \<le> (if retry config then 0 else 1)"
    if a: "dispatch (Suc n) srv c config = Some (c', out)" for c config c' out
    using a
  proof (cases rule: dispatch_cases)
    case (resolved d)
    then show ?thesis by simp
  next
    case (rejected s)
    then show ?thesis by simp
  next
    case (refresh_failed c2 e)
    from Suc refresh_failed(3) obtain new where
      "sent c2 = sent (c\<lparr>sent := sent c @ [request_interceptor c config]\<rparr>) @ new"
      "\<forall>r \<in> set new. url r = refresh_url"
      unfolding traffic_def by blast
    with refresh_failed(2,4) show ?thesis
      by (intro exI[of _ new]) simp
  next
    case (retried c2 t)
    let ?first = "request_interceptor c config"
    let ?orig = "?first\<lparr>retry := True\<rparr>"
    from Suc retried(3) obtain new where new:
      "sent c2 = sent (c\<lparr>sent := sent c @ [?first]\<rparr>) @ new"
      "\<forall>r \<in> set new. url r = refresh_url"
      unfolding traffic_def by blast
    from Suc retried(4) obtain rest where rest:
      "sent c' = sent c2 @ request_interceptor c2 ?orig # rest"
      "\<forall>r \<in> set rest. url r = refresh_url \<or> url r = url ?orig \<and> retry r"
      "length (filter (\<lambda>r. url r \<noteq> refresh_url) rest) \<le> (if retry ?orig then 0 else 1)"
      unfolding traffic_def by blast
    from new(2) have n0: "filter (\<lambda>r. url r \<noteq> refresh_url) new = []"
      by (simp add: filter_empty_conv)
    from rest(3) have r0: "filter (\<lambda>r. url r \<noteq> refresh_url) rest = []" by simp
    show ?thesis
    proof (intro exI[of _ "new @ request_interceptor c2 ?orig # rest"] conjI)
      show "sent c' = sent c @ ?first # new @ request_interceptor c2 ?orig # rest"
        using new(1) rest(1) by simp
      show "\<forall>r \<in> set (new @ request_interceptor c2 ?orig # rest).
              url r = refresh_url \<or> url r = url config \<and> retry r"
        using new(2) rest(2) by auto
      show "length (filter (\<lambda>r. url r \<noteq> refresh_url) (new @ request_interceptor c2 ?orig # rest))
              \<le> (if retry config then 0 else 1)"
        using n0 r0 retried(2) by simp
    qed
  qed
  show ?case unfolding traffic_def using d traffic_refresh [of "Suc n" srv] by blast
qed

lemma dispatch_log:
  assumes "dispatch n srv c config = Some (c', out)"
  obtains rest where "sent c' = sent c @ request_interceptor c config # rest"
    "\<forall>r \<in> set rest. url r = refresh_url \<or> url r = url config \<and> retry r"
    "length (filter (\<lambda>r. url r \<noteq> refresh_url) rest) \<le> (if retry config then 0 else 1)"
  using traffic_all [of n srv] assms unfolding traffic_def by blast

lemma refreshToken_log:
  assumes "refreshToken n srv c = Some (c', out)"
  obtains new where "sent c' = sent c @ new" "\<forall>r \<in> set new. url r = refresh_url"
  using traffic_all [of n srv] assms unfolding traffic_def by blast

lemma sends_le_2:
  assumes "dispatch n srv c config = Some (c', out)" and "url config \<noteq> refresh_url"
  shows "length (filter (\<lambda>r. url r = url config) (added c c')) \<le> 2"
proof -
  from assms(1) obtain rest where rest:
    "sent c' = sent c @ request_interceptor c config # rest"
    "\<forall>r \<in> set rest. url r = refresh_url \<or> url r = url config \<and> retry r"
    "length (filter (\<lambda>r. url r \<noteq> refresh_url) rest) \<le> (if retry config then 0 else 1)"
    by (rule dispatch_log)
  from rest(2) assms(2)
  have "filter (\<lambda>r. url r = url config) rest = filter (\<lambda>r. url r \<noteq> refresh_url) rest"
    by (intro filter_cong) auto
  with rest(1,3) show ?thesis by (simp add: added_def split: if_splits)
qed

lemma marked_once:
  assumes "dispatch n srv c config = Some (c', out)" and "retry config"
  shows "added c c' = [request_interceptor c config] \<and>
         out = (case srv (length (sent c)) (request_interceptor c config) of
                  Success d \<Rightarrow> Inr d
                | Failure s \<Rightarrow> Inl (AxiosError s (request_interceptor c config)))"
proof (cases n)
  case 0
  with assms show ?thesis by simp
next
  case (Suc m)
  with assms(1) have "dispatch (Suc m) srv c config = Some (c', out)" by simp
  then show ?thesis
    using assms(2) by (cases rule: dispatch_cases) (simp_all add: added_def)
qed

lemma two_sends:
  assumes a: "dispatch n srv c config = Some (c', out)" and u: "url config \<noteq> refresh_url"
    and two: "length (filter (\<lambda>r. url r = url config) (added c c')) = 2"
  shows "srv (length (sent c)) (request_interceptor c config) = Failure (Some 401) \<and>
         \<not> retry config \<and>
         (\<exists>c2 t. refreshToken (n - 1) srv (c\<lparr>sent := sent c @ [request_interceptor c config]\<rparr>) =
                    Some (c2, Inr t) \<and>
                  filter (\<lambda>r. url r = url config) (added c c') =
                    [request_interceptor c config,
                     request_interceptor c2 ((request_interceptor c config)\<lparr>retry := True\<rparr>)])"
proof (cases n)
  case 0
  with a show ?thesis by simp
next
  case (Suc m)
  let ?first = "request_interceptor c config"
  from a Suc have "dispatch (Suc m) srv c config = Some (c', out)" by simp
  then show ?thesis
  proof (cases rule: dispatch_cases)
    case (resolved d)
    with two show ?thesis by (simp add: added_def)
  next
    case (rejected s)
    with two show ?thesis by (simp add: added_def)
  next
    case (refresh_failed c2 e)
    from refresh_failed(3) obtain new where
      "sent c2 = sent (c\<lparr>sent := sent c @ [?first]\<rparr>) @ new" "\<forall>r \<in> set new. url r = refresh_url"
      by (rule refreshToken_log)
    with refresh_failed(4) u have "filter (\<lambda>r. url r = url config) (added c c') = [?first]"
      by (simp add: added_def filter_empty_conv)
    with two show ?thesis by simp
  next
    case (retried c2 t)
    let ?orig = "?first\<lparr>retry := True\<rparr>"
    from retried(3) obtain new where new:
      "sent c2 = sent (c\<lparr>sent := sent c @ [?first]\<rparr>) @ new" "\<forall>r \<in> set new. url r = refresh_url"
      by (rule refreshToken_log)
    from retried(4) obtain rest where rest:
      "sent c' = sent c2 @ request_interceptor c2 ?orig # rest"
      by (rule dispatch_log)
    from retried(4) have "added c2 c' = [request_interceptor c2 ?orig]"
      using marked_once [of m srv c2 ?orig c' out] by simp
    with rest have "sent c' = sent c2 @ [request_interceptor c2 ?orig]"
      by (simp add: added_def)
    with new u have "filter (\<lambda>r. url r = url config) (added c c') =
        [?first, request_interceptor c2 ?orig]"
      by (simp add: added_def filter_empty_conv)
    with retried Suc show ?thesis by simp
  qed
qed

text \<open>What a call of the client does, for every amount of fuel that lets it start: after
  a failure other than 401, and for a request marked as retried, it settles after the one
  send; after a 401 on an unmarked request it settles as soon as the token refresh does.\<close>

lemma dispatch_other_error:
  "srv (length (sent c)) (request_interceptor c config) = Failure s \<Longrightarrow> s \<noteq> Some 401 \<Longrightarrow>
   dispatch (Suc n) srv c config =
     Some (c\<lparr>sent := sent c @ [request_interceptor c config]\<rparr>,
           Inl (AxiosError s (request_interceptor c config)))"
  by (simp add: Let_def)

lemma dispatch_marked:
  "retry config \<Longrightarrow>
   dispatch (Suc n) srv c config =
     Some (c\<lparr>sent := sent c @ [request_interceptor c config]\<rparr>,
           case srv (length (sent c)) (request_interceptor c config) of
             Success d \<Rightarrow> Inr d
           | Failure s \<Rightarrow> Inl (AxiosError s (request_interceptor c config)))"
  by (simp add: Let_def split: response.splits)

lemma dispatch_refresh_failed:
  "srv (length (sent c)) (request_interceptor c config) = Failure (Some 401) \<Longrightarrow>
   \<not> retry config \<Longrightarrow>
   refreshToken n srv (c\<lparr>sent := sent c @ [request_interceptor c config]\<rparr>) = Some (c2, Inl e) \<Longrightarrow>
   dispatch (Suc n) srv c config = Some ((clearTokens c2)\<lparr>location := ''/login''\<rparr>, Inl e)"
  by (simp add: Let_def)

lemma dispatch_retried:
  assumes "srv (length (sent c)) (request_interceptor c config) = Failure (Some 401)"
    and "\<not> retry config"
    and "refreshToken (Suc n) srv (c\<lparr>sent := sent c @ [request_interceptor c config]\<rparr>) =
           Some (c2, Inr t)"
  shows "dispatch (Suc (Suc n)) srv c config =
     Some (c2\<lparr>sent := sent c2 @
                 [request_interceptor c2 ((request_interceptor c config)\<lparr>retry := True\<rparr>)]\<rparr>,
           case srv (length (sent c2))
                  (request_interceptor c2 ((request_interceptor c config)\<lparr>retry := True\<rparr>)) of
             Success d \<Rightarrow> Inr d
           | Failure s \<Rightarrow>
               Inl (AxiosError s
                     (request_interceptor c2 ((request_interceptor c config)\<lparr>retry := True\<rparr>))))"
proof -
  have "dispatch (Suc (Suc n)) srv c config =
      dispatch (Suc n) srv c2 ((request_interceptor c config)\<lparr>retry := True\<rparr>)"
    using assms by (simp add: Let_def del: dispatch.simps(2) add: dispatch.simps(2) [of "Suc n"])
  moreover have "retry ((request_interceptor c config)\<lparr>retry := True\<rparr>)"
    by simp
  ultimately show ?thesis
    by (simp only: dispatch_marked)
qed

text \<open>The log of a settled call, whatever the URL of the request: the request; then what
  the token refresh has sent, if one was started; then, if the refresh succeeded, the
  request once more, marked as retried.\<close>

lemma dispatch_shape:
  assumes a: "dispatch m srv c config = Some (c', out)"
  shows "added c c' = [request_interceptor c config] \<or>
     (srv (length (sent c)) (request_interceptor c config) = Failure (Some 401) \<and>
      \<not> retry config \<and>
      (\<exists>c2 e. refreshToken (m - 1) srv (c\<lparr>sent := sent c @ [request_interceptor c config]\<rparr>) =
                 Some (c2, Inl e) \<and>
               added c c' = request_interceptor c config #
                 added (c\<lparr>sent := sent c @ [request_interceptor c config]\<rparr>) c2)) \<or>
     (srv (length (sent c)) (request_interceptor c config) = Failure (Some 401) \<and>
      \<not> retry config \<and>
      (\<exists>c2 t. refreshToken (m - 1) srv (c\<lparr>sent := sent c @ [request_interceptor c config]\<rparr>) =
                 Some (c2, Inr t) \<and>
               added c c' = request_interceptor c config #
                 added (c\<lparr>sent := sent c @ [request_interceptor c config]\<rparr>) c2 @
                 [request_interceptor c2 ((request_interceptor c config)\<lparr>retry := True\<rparr>)]))"
proof (cases m)
  case 0
  with a show ?thesis by simp
next
  case (Suc k)
  let ?first = "request_interceptor c config"
  let ?c1 = "c\<lparr>sent := sent c @ [?first]\<rparr>"
  from a Suc have "dispatch (Suc k) srv c config = Some (c', out)" by simp
  then show ?thesis
  proof (cases rule: dispatch_cases)
    case (resolved d)
    then show ?thesis by (simp add: added_def)
  next
    case (rejected s)
    then show ?thesis by (simp add: added_def)
  next
    case (refresh_failed c2 e)
    from refresh_failed(3) obtain new where new: "sent c2 = sent ?c1 @ new"
      by (rule refreshToken_log)
    then have "added c c' = ?first # added ?c1 c2"
      using refresh_failed(4) by (simp add: added_def)
    with refresh_failed(1,2,3) Suc show ?thesis by simp
  next
    case (retried c2 t)
    let ?orig = "?first\<lparr>retry := True\<rparr>"
    from retried(3) obtain new where new: "sent c2 = sent ?c1 @ new"
      by (rule refreshToken_log)
    from retried(4) obtain rest where rest:
      "sent c' = sent c2 @ request_interceptor c2 ?orig # rest"
      by (rule dispatch_log)
    from retried(4) have "added c2 c' = [request_interceptor c2 ?orig]"
      using marked_once [of k srv c2 ?orig c' out] by simp
    with rest have "sent c' = sent c2 @ [request_interceptor c2 ?orig]"
      by (simp add: added_def)
    with new have "added c c' = ?first # added ?c1 c2 @ [request_interceptor c2 ?orig]"
      by (simp add: added_def)
    with retried(1,2,3) Suc show ?thesis by simp
  qed
qed

text \<open>Behind a server that answers every request with 401, the refresh requests too, a
  call of a client that holds a refresh token never settles: each refresh request is
  itself answered with 401 and starts the next refresh.\<close>

lemma refresh_401_never_settles:
  "tokens c = Some t \<Longrightarrow> refresh_token t \<noteq> [] \<Longrightarrow> \<not> retry config \<Longrightarrow>
   dispatch n unauthorized c config = None"
proof (induction n arbitrary: c config)
  case 0
  then show ?case by simp
next
  case (Suc n)
  let ?c1 = "c\<lparr>sent := sent c @ [request_interceptor c config]\<rparr>"
  have "dispatch n unauthorized ?c1 (post refresh_url (refresh_token t)) = None"
    using Suc.prems by (intro Suc.IH [of ?c1]) (simp_all add: post_def)
  then have "refreshToken n unauthorized ?c1 = None"
    using Suc.prems by (simp add: refreshToken.simps)
  moreover have "unauthorized (length (sent c)) (request_interceptor c config) =
      Failure (Some 401)"
    by (simp add: unauthorized_def)
  ultimately show ?case
    using Suc.prems by (simp add: Let_def)
qed

text \<open>
  C5. For every failed response, and for every amount of fuel that lets the call start:
  a failure other than 401 is handed to the caller after the one send, with the client
  unchanged but for the log; a request already marked as retried is sent once and its
  response is handed on as it is, a 401 too; after a 401 on an unmarked request, a failed
  token refresh is handed to the caller and the request is not sent again; after a
  successful refresh the request is sent once more, marked as retried, and the response
  to that send is handed on as it is. Of every call that settles, whatever its URL: the
  log holds the request alone, or the first answer was a 401, the request was not yet
  marked, and the log holds the request, then the requests of the token refresh, then,
  only if the refresh succeeded, one more send of the request; counted by URL, a
  request that is not itself a refresh request is sent at most twice, and when it was sent
  twice the first answer was a 401, the request was not yet marked, a token refresh
  succeeded in between, and the second send is the first one marked as retried.
\<close>

theorem retry_policy:
  "(\<forall>s. srv (length (sent c)) (request_interceptor c config) = Failure s \<and> s \<noteq> Some 401 \<longrightarrow>
      dispatch (Suc n) srv c config =
        Some (c\<lparr>sent := sent c @ [request_interceptor c config]\<rparr>,
              Inl (AxiosError s (request_interceptor c config)))) \<and>
   (retry config \<longrightarrow>
      dispatch (Suc n) srv c config =
        Some (c\<lparr>sent := sent c @ [request_interceptor c config]\<rparr>,
              case srv (length (sent c)) (request_interceptor c config) of
                Success d \<Rightarrow> Inr d
              | Failure s \<Rightarrow> Inl (AxiosError s (request_interceptor c config)))) \<and>
   (\<forall>c2 e. srv (length (sent c)) (request_interceptor c config) = Failure (Some 401) \<and>
       \<not> retry config \<and>
       refreshToken n srv (c\<lparr>sent := sent c @ [request_interceptor c config]\<rparr>) =
         Some (c2, Inl e) \<longrightarrow>
      dispatch (Suc n) srv c config = Some ((clearTokens c2)\<lparr>location := ''/login''\<rparr>, Inl e)) \<and>
   (\<forall>c2 t. srv (length (sent c)) (request_interceptor c config) = Failure (Some 401) \<and>
       \<not> retry config \<and>
       refreshToken (Suc n) srv (c\<lparr>sent := sent c @ [request_interceptor c config]\<rparr>) =
         Some (c2, Inr t) \<longrightarrow>
      dispatch (Suc (Suc n)) srv c config =
        Some (c2\<lparr>sent := sent c2 @
                    [request_interceptor c2 ((request_interceptor c config)\<lparr>retry := True\<rparr>)]\<rparr>,
              case srv (length (sent c2))
                     (request_interceptor c2 ((request_interceptor c config)\<lparr>retry := True\<rparr>)) of
                Success d \<Rightarrow> Inr d
              | Failure s \<Rightarrow>
                  Inl (AxiosError s
                        (request_interceptor c2
                           ((request_interceptor c config)\<lparr>retry := True\<rparr>))))) \<and>
   (dispatch m srv c config = Some (c', out) \<longrightarrow>
      (added c c' = [request_interceptor c config] \<or>
       (srv (length (sent c)) (request_interceptor c config) = Failure (Some 401) \<and>
        \<not> retry config \<and>
        (\<exists>c2 e. refreshToken (m - 1) srv (c\<lparr>sent := sent c @ [request_interceptor c config]\<rparr>) =
                   Some (c2, Inl e) \<and>
                 added c c' = request_interceptor c config #
                   added (c\<lparr>sent := sent c @ [request_interceptor c config]\<rparr>) c2)) \<or>
       (srv (length (sent c)) (request_interceptor c config) = Failure (Some 401) \<and>
        \<not> retry config \<and>
        (\<exists>c2 t. refreshToken (m - 1) srv (c\<lparr>sent := sent c @ [request_interceptor c config]\<rparr>) =
                   Some (c2, Inr t) \<and>
                 added c c' = request_interceptor c config #
                   added (c\<lparr>sent := sent c @ [request_interceptor c config]\<rparr>) c2 @
                   [request_interceptor c2 ((request_interceptor c config)\<lparr>retry := True\<rparr>)]))) \<and>
      (url config \<noteq> refresh_url \<longrightarrow>
         length (filter (\<lambda>r. url r = url config) (added c c')) \<le> 2) \<and>
      (url config \<noteq> refresh_url \<and>
       length (filter (\<lambda>r. url r = url config) (added c c')) = 2 \<longrightarrow>
         srv (length (sent c)) (request_interceptor c config) = Failure (Some 401) \<and>
         \<not> retry config \<and>
         (\<exists>c2 t. refreshToken (m - 1) srv (c\<lparr>sent := sent c @ [request_interceptor c config]\<rparr>) =
                    Some (c2, Inr t) \<and>
                  filter (\<lambda>r. url r = url config) (added c c') =
                    [request_interceptor c config,
                     request_interceptor c2 ((request_interceptor c config)\<lparr>retry := True\<rparr>)])))"
proof (intro conjI impI allI)
  fix s
  assume "srv (length (sent c)) (request_interceptor c config) = Failure s \<and> s \<noteq> Some 401"
  then have "srv (length (sent c)) (request_interceptor c config) = Failure s"
    and "s \<noteq> Some 401"
    by simp_all
  then show "dispatch (Suc n) srv c config =
        Some (c\<lparr>sent := sent c @ [request_interceptor c config]\<rparr>,
              Inl (AxiosError s (request_interceptor c config)))"
    by (rule dispatch_other_error)
next
  assume "retry config"
  then show "dispatch (Suc n) srv c config =
        Some (c\<lparr>sent := sent c @ [request_interceptor c config]\<rparr>,
              case srv (length (sent c)) (request_interceptor c config) of
                Success d \<Rightarrow> Inr d
              | Failure s \<Rightarrow> Inl (AxiosError s (request_interceptor c config)))"
    by (rule dispatch_marked)
next
  fix c2 e
  assume "srv (length (sent c)) (request_interceptor c config) = Failure (Some 401) \<and>
       \<not> retry config \<and>
       refreshToken n srv (c\<lparr>sent := sent c @ [request_interceptor c config]\<rparr>) =
         Some (c2, Inl e)"
  then have "srv (length (sent c)) (request_interceptor c config) = Failure (Some 401)"
    and "\<not> retry config"
    and "refreshToken n srv (c\<lparr>sent := sent c @ [request_interceptor c config]\<rparr>) =
         Some (c2, Inl e)"
    by simp_all
  then show "dispatch (Suc n) srv c config =
      Some ((clearTokens c2)\<lparr>location := ''/login''\<rparr>, Inl e)"
    by (rule dispatch_refresh_failed)
next
  fix c2 t
  assume "srv (length (sent c)) (request_interceptor c config) = Failure (Some 401) \<and>
       \<not> retry config \<and>
       refreshToken (Suc n) srv (c\<lparr>sent := sent c @ [request_interceptor c config]\<rparr>) =
         Some (c2, Inr t)"
  then have "srv (length (sent c)) (request_interceptor c config) = Failure (Some 401)"
    and "\<not> retry config"
    and "refreshToken (Suc n) srv (c\<lparr>sent := sent c @ [request_interceptor c config]\<rparr>) =
         Some (c2, Inr t)"
    by simp_all
  then show "dispatch (Suc (Suc n)) srv c config =
        Some (c2\<lparr>sent := sent c2 @
                    [request_interceptor c2 ((request_interceptor c config)\<lparr>retry := True\<rparr>)]\<rparr>,
              case srv (length (sent c2))
                     (request_interceptor c2 ((request_interceptor c config)\<lparr>retry := True\<rparr>)) of
                Success d \<Rightarrow> Inr d
              | Failure s \<Rightarrow>
                  Inl (AxiosError s
                        (request_interceptor c2
                           ((request_interceptor c config)\<lparr>retry := True\<rparr>))))"
    by (rule dispatch_retried)
next
  assume a: "dispatch m srv c config = Some (c', out)"
  then show "added c c' = [request_interceptor c config] \<or>
       (srv (length (sent c)) (request_interceptor c config) = Failure (Some 401) \<and>
        \<not> retry config \<and>
        (\<exists>c2 e. refreshToken (m - 1) srv (c\<lparr>sent := sent c @ [request_interceptor c config]\<rparr>) =
                   Some (c2, Inl e) \<and>
                 added c c' = request_interceptor c config #
                   added (c\<lparr>sent := sent c @ [request_interceptor c config]\<rparr>) c2)) \<or>
       (srv (length (sent c)) (request_interceptor c config) = Failure (Some 401) \<and>
        \<not> retry config \<and>
        (\<exists>c2 t. refreshToken (m - 1) srv (c\<lparr>sent := sent c @ [request_interceptor c config]\<rparr>) =
                   Some (c2, Inr t) \<and>
                 added c c' = request_interceptor c config #
                   added (c\<lparr>sent := sent c @ [request_interceptor c config]\<rparr>) c2 @
                   [request_interceptor c2 ((request_interceptor c config)\<lparr>retry := True\<rparr>)]))"
    by (rule dispatch_shape)
next
  assume a: "dispatch m srv c config = Some (c', out)" and "url config \<noteq> refresh_url"
  then show "length (filter (\<lambda>r. url r = url config) (added c c')) \<le> 2"
    by (rule sends_le_2)
next
  assume a: "dispatch m srv c config = Some (c', out)"
    and "url config \<noteq> refresh_url \<and>
       length (filter (\<lambda>r. url r = url config) (added c c')) = 2"
  then have u: "url config \<noteq> refresh_url"
    and two: "length (filter (\<lambda>r. url r = url config) (added c c')) = 2"
    by simp_all
  from two_sends [OF a u two]
  show "srv (length (sent c)) (request_interceptor c config) = Failure (Some 401)"
    and "\<not> retry config"
    and "\<exists>c2 t. refreshToken (m - 1) srv (c\<lparr>sent := sent c @ [request_interceptor c config]\<rparr>) =
                  Some (c2, Inr t) \<and>
                filter (\<lambda>r. url r = url config) (added c c') =
                  [request_interceptor c config,
                   request_interceptor c2 ((request_interceptor c config)\<lparr>retry := True\<rparr>)]"
    by blast+
qed

text \<open>A request answered with 404, one that gets no response, a marked request answered
  with 401, a 401 for a client without tokens, and the session of \<open>script1\<close>.\<close>

lemma refresh_script1:
  "refreshToken (Suc 0) (scripted script1)
     (client0\<lparr>sent := sent client0 @ [request_interceptor client0 request0]\<rparr>) =
   Some (client_mid,
         Inr \<lparr>access_token = ''a2'', refresh_token = ''r2''\<rparr>)"
  by (simp add: refreshToken.simps scripted_def script1_def client0_def client_mid_def
      request0_def post_def request_interceptor_def refresh_url_def
      saveTokensToStorage_def as_tokens_def Let_def)

lemma refresh_anon:
  "refreshToken 0 (scripted [Failure (Some 401)])
     (client_anon\<lparr>sent := sent client_anon @ [request_interceptor client_anon request0]\<rparr>) =
   Some (client_anon\<lparr>sent := sent client_anon @ [request_interceptor client_anon request0]\<rparr>,
         Inl NoRefreshToken)"
  by (simp add: refreshToken.simps client_anon_def)

theorem retry_policy_witness:
  "dispatch (Suc 0) (scripted [Failure (Some 404)]) client0 request0 =
     Some (client0\<lparr>sent := sent client0 @ [request_interceptor client0 request0]\<rparr>,
           Inl (AxiosError (Some 404) (request_interceptor client0 request0))) \<and>
   dispatch (Suc 0) (scripted []) client0 request0 =
     Some (client0\<lparr>sent := sent client0 @ [request_interceptor client0 request0]\<rparr>,
           Inl (AxiosError None (request_interceptor client0 request0))) \<and>
   retry (request0\<lparr>retry := True\<rparr>) \<and>
   dispatch (Suc 0) (scripted [Failure (Some 401)]) client0 (request0\<lparr>retry := True\<rparr>) =
     Some (client0\<lparr>sent := sent client0 @
                    [request_interceptor client0 (request0\<lparr>retry := True\<rparr>)]\<rparr>,
           Inl (AxiosError (Some 401) (request_interceptor client0 (request0\<lparr>retry := True\<rparr>)))) \<and>
   dispatch (Suc 0) (scripted [Failure (Some 401)]) client_anon request0 =
     Some (\<lparr>tokens = None, storage = None, location = ''/login'',
            sent = [\<lparr>verb = ''post'', url = ''/code/execute'', body = ''x = 1'',
                     authorization = None, retry = False\<rparr>]\<rparr>,
           Inl NoRefreshToken) \<and>
   dispatch (Suc (Suc 0)) (scripted script1) client0 request0 =
     Some (client1, Inr (OtherData ''ok'')) \<and>
   url request0 \<noteq> refresh_url \<and>
   added client0 client1 =
     [\<lparr>verb = ''post'', url = ''/code/execute'', body = ''x = 1'',
       authorization = Some ''Bearer a1'', retry = False\<rparr>,
      \<lparr>verb = ''post'', url = ''/auth/refresh'', body = ''r1'',
       authorization = Some ''Bearer a1'', retry = False\<rparr>,
      \<lparr>verb = ''post'', url = ''/code/execute'', body = ''x = 1'',
       authorization = Some ''Bearer a2'', retry = True\<rparr>] \<and>
   length (filter (\<lambda>r. url r = url request0) (added client0 client1)) = 2 \<and>
   scripted script1 (length (sent client0)) (request_interceptor client0 request0) =
     Failure (Some 401) \<and>
   \<not> retry request0"
proof -
  have h404: "scripted [Failure (Some 404)] (length (sent client0))
      (request_interceptor client0 request0) = Failure (Some 404) \<and>
      Some 404 \<noteq> Some (401 :: nat)"
    by (simp add: scripted_def client0_def)
  from retry_policy [where srv = "scripted [Failure (Some 404)]" and c = client0
      and config = request0 and n = 0] h404
  have w1: "dispatch (Suc 0) (scripted [Failure (Some 404)]) client0 request0 =
     Some (client0\<lparr>sent := sent client0 @ [request_interceptor client0 request0]\<rparr>,
           Inl (AxiosError (Some 404) (request_interceptor client0 request0)))"
    by blast
  have hnone: "scripted [] (length (sent client0))
      (request_interceptor client0 request0) = Failure None \<and> None \<noteq> Some (401 :: nat)"
    by (simp add: scripted_def)
  from retry_policy [where srv = "scripted []" and c = client0
      and config = request0 and n = 0] hnone
  have w2: "dispatch (Suc 0) (scripted []) client0 request0 =
     Some (client0\<lparr>sent := sent client0 @ [request_interceptor client0 request0]\<rparr>,
           Inl (AxiosError None (request_interceptor client0 request0)))"
    by blast
  have marked: "retry (request0\<lparr>retry := True\<rparr>)"
    by simp
  have "scripted [Failure (Some 401)] (length (sent client0))
      (request_interceptor client0 (request0\<lparr>retry := True\<rparr>)) = Failure (Some 401)"
    by (simp add: scripted_def client0_def)
  with retry_policy [where srv = "scripted [Failure (Some 401)]" and c = client0
      and config = "request0\<lparr>retry := True\<rparr>" and n = 0] marked
  have w3: "dispatch (Suc 0) (scripted [Failure (Some 401)]) client0 (request0\<lparr>retry := True\<rparr>) =
     Some (client0\<lparr>sent := sent client0 @
                    [request_interceptor client0 (request0\<lparr>retry := True\<rparr>)]\<rparr>,
           Inl (AxiosError (Some 401) (request_interceptor client0 (request0\<lparr>retry := True\<rparr>))))"
    by simp
  have unmarked: "\<not> retry request0"
    by (simp add: request0_def post_def)
  have "scripted [Failure (Some 401)] (length (sent client_anon))
      (request_interceptor client_anon request0) = Failure (Some 401)"
    by (simp add: scripted_def client_anon_def)
  with retry_policy [where srv = "scripted [Failure (Some 401)]" and c = client_anon
      and config = request0 and n = 0] unmarked refresh_anon
  have "dispatch (Suc 0) (scripted [Failure (Some 401)]) client_anon request0 =
      Some ((clearTokens (client_anon\<lparr>sent := sent client_anon @
                 [request_interceptor client_anon request0]\<rparr>))\<lparr>location := ''/login''\<rparr>,
            Inl NoRefreshToken)"
    by blast
  then have w4: "dispatch (Suc 0) (scripted [Failure (Some 401)]) client_anon request0 =
     Some (\<lparr>tokens = None, storage = None, location = ''/login'',
            sent = [\<lparr>verb = ''post'', url = ''/code/execute'', body = ''x = 1'',
                     authorization = None, retry = False\<rparr>]\<rparr>,
           Inl NoRefreshToken)"
    by (simp add: clearTokens_def client_anon_def request_interceptor_def request0_def post_def)
  have first: "scripted script1 (length (sent client0)) (request_interceptor client0 request0) =
      Failure (Some 401)"
    by (simp add: scripted_def script1_def client0_def)
  from retry_policy [where srv = "scripted script1" and c = client0
      and config = request0 and n = 0] first unmarked refresh_script1
  have "dispatch (Suc (Suc 0)) (scripted script1) client0 request0 =
      Some (client_mid
             \<lparr>sent := sent client_mid @
                [request_interceptor client_mid
                   ((request_interceptor client0 request0)\<lparr>retry := True\<rparr>)]\<rparr>,
           case scripted script1 (length (sent client_mid))
                  (request_interceptor client_mid
                     ((request_interceptor client0 request0)\<lparr>retry := True\<rparr>)) of
             Success d \<Rightarrow> Inr d
           | Failure s \<Rightarrow>
               Inl (AxiosError s
                     (request_interceptor client_mid
                        ((request_interceptor client0 request0)\<lparr>retry := True\<rparr>))))"
    by blast
  then have w5: "dispatch (Suc (Suc 0)) (scripted script1) client0 request0 =
      Some (client1, Inr (OtherData ''ok''))"
    by (simp add: scripted_def script1_def client0_def client1_def client_mid_def
        request0_def post_def request_interceptor_def)
  have u: "url request0 \<noteq> refresh_url"
    by (simp add: request0_def refresh_url_def)
  have log: "added client0 client1 =
     [\<lparr>verb = ''post'', url = ''/code/execute'', body = ''x = 1'',
       authorization = Some ''Bearer a1'', retry = False\<rparr>,
      \<lparr>verb = ''post'', url = ''/auth/refresh'', body = ''r1'',
       authorization = Some ''Bearer a1'', retry = False\<rparr>,
      \<lparr>verb = ''post'', url = ''/code/execute'', body = ''x = 1'',
       authorization = Some ''Bearer a2'', retry = True\<rparr>]"
    by (simp add: added_def client0_def client1_def)
  have two: "length (filter (\<lambda>r. url r = url request0) (added client0 client1)) = 2"
    by (simp add: log request0_def)
  from retry_policy [where srv = "scripted script1" and c = client0 and config = request0
      and m = "Suc (Suc 0)" and c' = client1 and out = "Inr (OtherData ''ok'')"] w5 u two
  have "scripted script1 (length (sent client0)) (request_interceptor client0 request0) =
      Failure (Some 401) \<and> \<not> retry request0"
    by blast
  with w1 w2 marked w3 w4 w5 u log two show ?thesis
    by blast
qed

section \<open>Logout\<close>

text \<open>
  C10. Whenever \<^verbatim>\<open>logout\<close> completes, whether its request resolved or was rejected (also
  after a token refresh in between), the tokens are cleared from the client and from the
  storage: \<^verbatim>\<open>isAuthenticated()\<close> is false and \<^verbatim>\<open>getTokens()\<close> is null. It completes
  after one request whenever the answer to that request is not a 401.
\<close>

theorem logout_clears:
  "(logout n srv c = Some (c', r) \<longrightarrow>
      \<not> isAuthenticated c' \<and> getTokens c' = None \<and> storage c' = None) \<and>
   (srv (length (sent c)) (request_interceptor c (post ''/auth/logout'' [])) \<noteq> Failure (Some 401) \<longrightarrow>
      logout (Suc n) srv c \<noteq> None)"
proof -
  have "\<not> isAuthenticated c' \<and> getTokens c' = None \<and> storage c' = None"
    if "logout n srv c = Some (c', r)"
    using that
    by (auto simp: logout_def isAuthenticated_def getTokens_def clearTokens_def
        split: option.splits sum.splits prod.splits)
  moreover have "logout (Suc n) srv c \<noteq> None"
    if "srv (length (sent c)) (request_interceptor c (post ''/auth/logout'' [])) \<noteq> Failure (Some 401)"
  proof (cases "srv (length (sent c)) (request_interceptor c (post ''/auth/logout'' []))")
    case (Success d)
    then show ?thesis by (simp add: logout_def Let_def)
  next
    case (Failure s)
    with that show ?thesis by (simp add: logout_def Let_def)
  qed
  ultimately show ?thesis by blast
qed

lemma logout_resolved:
  "logout 1 (scripted [Success (OtherData [])]) client0 =
     Some (\<lparr>tokens = None, storage = None, location = ''/exercise'',
            sent = [\<lparr>verb = ''post'', url = ''/auth/logout'', body = [],
                     authorization = Some ''Bearer a1'', retry = False\<rparr>]\<rparr>, None)"
  by (simp add: logout_def scripted_def client0_def post_def request_interceptor_def
      clearTokens_def Let_def)

lemma logout_rejected:
  "logout 1 (scripted []) client0 =
     Some (\<lparr>tokens = None, storage = None, location = ''/exercise'',
            sent = [\<lparr>verb = ''post'', url = ''/auth/logout'', body = [],
                     authorization = Some ''Bearer a1'', retry = False\<rparr>]\<rparr>,
           Some (AxiosError None \<lparr>verb = ''post'', url = ''/auth/logout'', body = [],
                     authorization = Some ''Bearer a1'', retry = False\<rparr>))"
  by (simp add: logout_def scripted_def client0_def post_def request_interceptor_def
      clearTokens_def Let_def)

theorem logout_clears_witness:
  "isAuthenticated client0 \<and>
   logout 1 (scripted [Success (OtherData [])]) client0 =
     Some (\<lparr>tokens = None, storage = None, location = ''/exercise'',
            sent = [\<lparr>verb = ''post'', url = ''/auth/logout'', body = [],
                     authorization = Some ''Bearer a1'', retry = False\<rparr>]\<rparr>, None) \<and>
   \<not> isAuthenticated \<lparr>tokens = None, storage = None, location = ''/exercise'',
            sent = [\<lparr>verb = ''post'', url = ''/auth/logout'', body = [],
                     authorization = Some ''Bearer a1'', retry = False\<rparr>]\<rparr> \<and>
   getTokens \<lparr>tokens = None, storage = None, location = ''/exercise'',
            sent = [\<lparr>verb = ''post'', url = ''/auth/logout'', body = [],
                     authorization = Some ''Bearer a1'', retry = False\<rparr>]\<rparr> = None \<and>
   logout 1 (scripted []) client0 =
     Some (\<lparr>tokens = None, storage = None, location = ''/exercise'',
            sent = [\<lparr>verb = ''post'', url = ''/auth/logout'', body = [],
                     authorization = Some ''Bearer a1'', retry = False\<rparr>]\<rparr>,
           Some (AxiosError None \<lparr>verb = ''post'', url = ''/auth/logout'', body = [],
                     authorization = Some ''Bearer a1'', retry = False\<rparr>))"
proof -
  have "isAuthenticated client0"
    by (simp add: isAuthenticated_def client0_def)
  moreover from logout_clears [of 1 "scripted [Success (OtherData [])]" client0] logout_resolved
  have "\<not> isAuthenticated \<lparr>tokens = None, storage = None, location = ''/exercise'',
            sent = [\<lparr>verb = ''post'', url = ''/auth/logout'', body = [],
                     authorization = Some ''Bearer a1'', retry = False\<rparr>]\<rparr> \<and>
   getTokens \<lparr>tokens = None, storage = None, location = ''/exercise'',
            sent = [\<lparr>verb = ''post'', url = ''/auth/logout'', body = [],
                     authorization = Some ''Bearer a1'', retry = False\<rparr>]\<rparr> = None"
    by blast
  ultimately show ?thesis using logout_resolved logout_rejected by blast
qed

end
